theory Spec2Isabelle
  imports Main
begin

section \<open>The harmonic response tutorial script\<close>

text \<open>
  The repository is one Python script, \<^verbatim>\<open>harmonic_response_tutorial.py\<close>, that drives a
  remote simulation service through the vendor's client library. The script is modelled as
  a function from an environment (the value of the environment variable, the content of the
  fixture file and the answer of the service to every call) to the list of the effects the
  script performs, in order, and the way it stops.
\<close>

subsection \<open>Python values sent to the service\<close>

text \<open>
  The objects the script builds to send (\<^verbatim>\<open>Project(...)\<close>, \<^verbatim>\<open>SimulationSpec(...)\<close>, ...) are
  kept as trees: the class name and the arguments as written. A keyword argument is stored
  under its keyword, a positional argument under its position. A float literal is kept as
  its decimal literal \<open>m * 10 ^ e\<close>: the script computes nothing with these numbers.
  A Python \<^verbatim>\<open>str\<close> is a list of bytes here, its UTF-8 encoding.
\<close>

datatype pyval =
    PyNone
  | PyBool bool
  | PyInt int
  | PyFloat int int
  | PyStr string
  | PyList "pyval list"
  | PyDict "(string \<times> pyval) list"
  | PyObj string "(string \<times> pyval) list"

text \<open>An identifier that the service may leave unset (\<^verbatim>\<open>None\<close>) on a job that failed.\<close>

definition py_id :: "string option \<Rightarrow> pyval" where
  "py_id i = (case i of None \<Rightarrow> PyNone | Some s \<Rightarrow> PyStr s)"

text \<open>Reading an argument of an object by its keyword.\<close>

fun attr :: "string \<Rightarrow> pyval \<Rightarrow> pyval option" where
  "attr k (PyObj c args) = map_of args k"
| "attr k v = None"

fun items :: "pyval \<Rightarrow> pyval list" where
  "items (PyList vs) = vs"
| "items v = []"

subsection \<open>Objects received from the service\<close>

record project =
  project_id :: string

record storage =
  url :: string
  storage_id :: string

record job =
  status :: string

record geometry_import = job +
  geometry_import_id :: string
  geometry_id :: "string option"

record geometry_mapping =
  name :: string

record geometry_mappings =
  embedded :: "geometry_mapping list"

record mesh_operation = job +
  mesh_operation_id :: string
  mesh_id :: "string option"

text \<open>
  A simulation as the service returns it. The script reads \<^verbatim>\<open>simulation_id\<close> and writes
  \<^verbatim>\<open>mesh_id\<close>; every other attribute of the object is in the extension part of the
  record, of an arbitrary type.
\<close>

record simulation =
  simulation_id :: string
  sim_mesh_id :: "string option"

subsection \<open>Floating point numbers and the format \<^verbatim>\<open>.0%\<close>\<close>

text \<open>
  A Python float is an IEEE 754 binary64 number: \<open>Finite s m e\<close> is
  \<open>(-1) ^ s * m * 2 ^ e\<close> with \<open>m < 2 ^ 53\<close> and \<open>-1074 \<le> e \<le> 971\<close>.
\<close>

datatype pyfloat = Finite bool nat int | Infinity bool | NaN

definition valid_float :: "pyfloat \<Rightarrow> bool" where
  "valid_float x =
     (case x of Finite s m e \<Rightarrow> m < 2 ^ 53 \<and> - 1074 \<le> e \<and> e \<le> 971 | _ \<Rightarrow> True)"

fun bit_length :: "nat \<Rightarrow> nat" where
  "bit_length n = (if n = 0 then 0 else Suc (bit_length (n div 2)))"

text \<open>Rounding \<open>p / d\<close> to the nearest integer, a tie to the even one.\<close>

definition round_half_even :: "nat \<Rightarrow> nat \<Rightarrow> nat" where
  "round_half_even p d =
     (let q = p div d; r = p mod d
      in if d < 2 * r \<or> (2 * r = d \<and> odd q) then q + 1 else q)"

text \<open>
  The product \<open>p * 2 ^ e\<close> as a binary64 number: the 53 leading bits of \<open>p\<close>, rounded
  to nearest, a tie to even; infinity when the result is \<open>2 ^ 1024\<close> or more.
\<close>

definition round_binary64 :: "bool \<Rightarrow> nat \<Rightarrow> int \<Rightarrow> pyfloat" where
  "round_binary64 s p e =
     (let sh = bit_length p - 53;
          q = round_half_even p (2 ^ sh);
          e' = e + int sh
      in if 1024 < int (bit_length q) + e' then Infinity s else Finite s q e')"

text \<open>\<^verbatim>\<open>x * 100\<close>, the first step of the presentation type \<^verbatim>\<open>%\<close>.\<close>

definition times_100 :: "pyfloat \<Rightarrow> pyfloat" where
  "times_100 x =
     (case x of Finite s m e \<Rightarrow> round_binary64 s (100 * m) e | Infinity s \<Rightarrow> Infinity s
      | NaN \<Rightarrow> NaN)"

definition digit :: "nat \<Rightarrow> char" where
  "digit d = char_of (48 + d)"

fun decimal :: "nat \<Rightarrow> string" where
  "decimal n = (if n < 10 then [digit n] else decimal (n div 10) @ [digit (n mod 10)])"

definition sign_prefix :: "bool \<Rightarrow> string" where
  "sign_prefix s = (if s then ''-'' else '''')"

text \<open>
  The fixed-point notation with no digit after the point (\<^verbatim>\<open>.0f\<close>): the integer
  nearest to the exact value of the float, a tie to even.
\<close>

definition format_f0 :: "pyfloat \<Rightarrow> string" where
  "format_f0 x =
     (case x of
        Finite s m e \<Rightarrow>
          sign_prefix s @
          decimal (if 0 \<le> e then m * 2 ^ nat e else round_half_even m (2 ^ nat (- e)))
      | Infinity s \<Rightarrow> sign_prefix s @ ''inf''
      | NaN \<Rightarrow> ''nan'')"

text \<open>\<^verbatim>\<open>format(x, ".0%")\<close>.\<close>

definition format_percent0 :: "pyfloat \<Rightarrow> string" where
  "format_percent0 x = format_f0 (times_100 x) @ ''%''"

record simulation_run = job +
  run_id :: string
  progress :: pyfloat

subsection \<open>Effects\<close>

datatype 'a request =
    CreateProject pyval
  | CreateStorage
  | PUT string "(string \<times> string) list" string
  | ImportGeometry string pyval
  | GetGeometryImport string string
  | GetGeometryMappings string "string option" string nat
  | CreateSimulation string pyval
  | CreateMeshOperation string pyval
  | StartMeshOperation string string string
  | GetMeshOperation string string
  | GetSimulation string string
  | UpdateSimulation string string "'a simulation_scheme"
  | CreateSimulationRun string string pyval
  | StartSimulationRun string string string
  | GetSimulationRun string string string

datatype 'a event =
    Getenv string
  | Print string
  | Construct string
  | SetApiKey string string
  | OpenRead string
  | Request "'a request"
  | Sleep nat

datatype exn = Exception string

text \<open>
  How a run stops before the last line: \<^verbatim>\<open>sys.exit\<close>, an exception nobody catches, or
  not at all (\<open>StillPolling\<close>: a poll loop has used all the iterations it was given).
\<close>

datatype stop = Exit int | Uncaught exn | StillPolling

text \<open>
  The environment of a run. A call of the service answers or raises. The answer to a status
  request is indexed by the number of status requests for that kind of job made before.
\<close>

record 'a world =
  env_SIMSCALE_API_KEY :: "string option"
  fixture_file :: "exn + string"
  on_create_project :: "exn + project"
  on_create_storage :: "exn + storage"
  on_put :: "exn + unit"
  on_import_geometry :: "exn + geometry_import"
  on_get_geometry_import :: "nat \<Rightarrow> exn + geometry_import"
  on_get_geometry_mappings :: "exn + geometry_mappings"
  on_create_simulation :: "exn + 'a simulation_scheme"
  on_create_mesh_operation :: "exn + mesh_operation"
  on_start_mesh_operation :: "exn + unit"
  on_get_mesh_operation :: "nat \<Rightarrow> exn + mesh_operation"
  on_get_simulation :: "exn + 'a simulation_scheme"
  on_update_simulation :: "exn + unit"
  on_create_simulation_run :: "exn + simulation_run"
  on_start_simulation_run :: "exn + unit"
  on_get_simulation_run :: "nat \<Rightarrow> exn + simulation_run"

text \<open>A piece of the script: the effects it performs, then a stop or its value.\<close>

type_synonym ('a, 'r) prog = "'a event list \<times> (stop + 'r)"

definition ret :: "'r \<Rightarrow> ('a, 'r) prog" where
  "ret v = ([], Inr v)"

definition halt :: "stop \<Rightarrow> ('a, 'r) prog" where
  "halt s = ([], Inl s)"

definition emit :: "'a event \<Rightarrow> ('a, unit) prog" where
  "emit e = ([e], Inr ())"

definition call :: "'a request \<Rightarrow> exn + 'r \<Rightarrow> ('a, 'r) prog" where
  "call rq answer =
     ([Request rq], case answer of Inl x \<Rightarrow> Inl (Uncaught x) | Inr v \<Rightarrow> Inr v)"

definition andthen :: "('a, 'r) prog \<Rightarrow> ('r \<Rightarrow> ('a, 'q) prog) \<Rightarrow> ('a, 'q) prog" where
  "andthen m f =
     (case m of
        (es, Inl s) \<Rightarrow> (es, Inl s)
      | (es, Inr v) \<Rightarrow> (case f v of (es', r) \<Rightarrow> (es @ es', r)))"

definition read_file :: "string \<Rightarrow> exn + string \<Rightarrow> ('a, string) prog" where
  "read_file path content =
     ([OpenRead path], case content of Inl x \<Rightarrow> Inl (Uncaught x) | Inr v \<Rightarrow> Inr v)"

subsection \<open>The objects the script sends\<close>

definition project_payload :: pyval where
  "project_payload =
     PyObj ''Project''
       [(''name'', PyStr ''Harmonic Response Example''),
        (''description'', PyStr ''Harmonic response analysis example''),
        (''measurement_system'', PyStr ''SI'')]"

definition geometry_import_request :: "string \<Rightarrow> pyval" where
  "geometry_import_request sid =
     PyObj ''GeometryImportRequest''
       [(''name'', PyStr ''Bracket''),
        (''location'', PyObj ''GeometryImportRequestLocation'' [(''0'', PyStr sid)]),
        (''format'', PyStr ''STEP''),
        (''input_unit'', PyStr ''m''),
        (''options'',
           PyObj ''GeometryImportRequestOptions''
             [(''facet_split'', PyBool False), (''sewing'', PyBool False),
              (''improve'', PyBool True)])]"

definition constant_function :: "pyval \<Rightarrow> pyval" where
  "constant_function v = PyObj ''ConstantFunction'' [(''type'', PyStr ''CONSTANT''), (''value'', v)]"

definition topological_reference :: "string list \<Rightarrow> pyval" where
  "topological_reference es =
     PyObj ''TopologicalReference'' [(''entities'', PyList (map PyStr es))]"

definition mumps_solver :: pyval where
  "mumps_solver = PyObj ''MUMPSSolver'' [(''type'', PyStr ''MUMPS'')]"

definition dimensional_frequency :: "int \<Rightarrow> pyval" where
  "dimensional_frequency v =
     PyObj ''DimensionalFrequency'' [(''value'', PyInt v), (''unit'', PyStr ''Hz'')]"

definition steel :: "string \<Rightarrow> pyval" where
  "steel body_name =
     PyObj ''SolidMaterial''
       [(''name'', PyStr ''Steel''),
        (''material_behavior'',
           PyObj ''LinearElasticMaterialBehavior''
             [(''type'', PyStr ''LINEAR_ELASTIC''),
              (''directional_dependency'',
                 PyObj ''IsotropicDirectionalDependency''
                   [(''type'', PyStr ''ISOTROPIC''),
                    (''youngs_modulus'',
                       PyObj ''DimensionalFunctionPressure''
                         [(''value'', constant_function (PyFloat 200 9)),
                          (''unit'', PyStr ''Pa'')]),
                    (''poissons_ratio'', constant_function (PyFloat 3 (- 1)))])]),
        (''density'',
           PyObj ''DimensionalFunctionDensity''
             [(''value'', constant_function (PyInt 7850)),
              (''unit'', PyStr (''kg/m'' @ [CHR 0xC2, CHR 0xB3]))]),
        (''topological_reference'', topological_reference [body_name])]"

definition fixed_support :: pyval where
  "fixed_support =
     PyObj ''FixedSupportBC''
       [(''type'', PyStr ''FIXED_SUPPORT''),
        (''name'', PyStr ''Fixed Support''),
        (''topological_reference'',
           topological_reference [''B1_TE42'', ''B1_TE70'', ''B1_TE98'', ''B1_TE378''])]"

definition force_load :: pyval where
  "force_load =
     PyObj ''ForceLoadBC''
       [(''type'', PyStr ''FORCE_LOAD''),
        (''name'', PyStr ''Force''),
        (''force'',
           PyObj ''DimensionalVectorFunctionForce''
             [(''value'',
                 PyObj ''ComponentVectorFunction''
                   [(''type'', PyStr ''COMPONENT''),
                    (''x'', constant_function (PyInt 0)),
                    (''y'', constant_function (PyInt 0)),
                    (''z'', constant_function (PyInt (- 1000)))]),
              (''unit'', PyStr ''N'')]),
        (''topological_reference'', topological_reference [''B1_TE150'', ''B1_TE153''])]"

definition numerics :: pyval where
  "numerics =
     PyObj ''SolidNumerics''
       [(''harmonic_solution_method'', PyStr ''MODAL_BASED''),
        (''modal_base'',
           PyObj ''ModalSolver''
             [(''solver'', mumps_solver),
              (''solver_model'', PyDict []),
              (''calculate_frequency'',
                 PyObj ''CalculateFrequency''
                   [(''prec_shift'', PyFloat 5 (- 2)), (''max_iter_shift'', PyInt 3),
                    (''threshold_frequency'', PyFloat 1 (- 2))]),
              (''eigen_mode'',
                 PyObj ''EigenModeVerification''
                   [(''threshold'', PyFloat 1 (- 6)),
                    (''precision_shift'', PyFloat 5 (- 2))])]),
        (''harmonic_response'', PyObj ''ModalSolver'' [(''solver'', mumps_solver)])]"

definition simulation_control :: pyval where
  "simulation_control =
     PyObj ''SolidSimulationControl''
       [(''modal_base'',
           PyObj ''ModalBaseControl''
             [(''eigenfrequency_scope'',
                 PyObj ''FirstMode''
                   [(''type'', PyStr ''FIRSTMODE''), (''number_of_modes'', PyInt 10)])]),
        (''harmonic_response'',
           PyObj ''HarmonicResponseControl''
             [(''excitation_frequencies'',
                 PyObj ''FrequencyList''
                   [(''type'', PyStr ''LIST_V20''),
                    (''start_frequency'', dimensional_frequency 10),
                    (''end_frequency'', dimensional_frequency 1000)])]),
        (''processors'', PyObj ''ComputingCore'' [(''num_of_processors'', PyInt (- 1))]),
        (''max_run_time'',
           PyObj ''DimensionalTime''
             [(''value'', PyFloat 180000 (- 1)), (''unit'', PyStr ''s'')])]"

definition harmonic_analysis :: "string \<Rightarrow> pyval" where
  "harmonic_analysis body_name =
     PyObj ''HarmonicAnalysis''
       [(''element_technology'',
           PyObj ''SolidElementTechnology''
             [(''element_technology3_d'',
                 PyObj ''ElementTechnology''
                   [(''definition_method'',
                       PyObj ''AutomaticElementDefinitionMethod''
                         [(''type'', PyStr ''AUTOMATIC'')])])]),
        (''global_physics'',
           PyObj ''SolidGlobalPhysics'' [(''enable_global_damping'', PyBool False)]),
        (''model'', PyObj ''SolidModel'' []),
        (''materials'', PyList [steel body_name]),
        (''initial_conditions'', PyObj ''SolidInitialConditions'' []),
        (''boundary_conditions'', PyList [fixed_support, force_load]),
        (''numerics'', numerics),
        (''simulation_control'', simulation_control),
        (''result_control'', PyObj ''SolidResultControl'' [])]"

definition simulation_spec :: "string option \<Rightarrow> string \<Rightarrow> pyval" where
  "simulation_spec gid body_name =
     PyObj ''SimulationSpec''
       [(''name'', PyStr ''Harmonic Response''),
        (''geometry_id'', py_id gid),
        (''model'', harmonic_analysis body_name)]"

definition mesh_operation_payload :: "string option \<Rightarrow> pyval" where
  "mesh_operation_payload gid =
     PyObj ''MeshOperation''
       [(''name'', PyStr ''Mesh''),
        (''geometry_id'', py_id gid),
        (''model'',
           PyObj ''SimmetrixMeshingSolid''
             [(''type'', PyStr ''SIMMETRIX_MESHING_SOLID''),
              (''sizing'',
                 PyObj ''AutomaticMeshSizingSimmetrix''
                   [(''type'', PyStr ''AUTOMATIC_V9''), (''fineness'', PyInt 5)])])]"

definition simulation_run_payload :: pyval where
  "simulation_run_payload = PyObj ''SimulationRun'' [(''name'', PyStr ''Run 1'')]"

subsection \<open>The poll loops\<close>

text \<open>\<^verbatim>\<open>status in ("FINISHED", "FAILED")\<close>\<close>

definition is_terminal :: "string \<Rightarrow> bool" where
  "is_terminal s = (s = ''FINISHED'' \<or> s = ''FAILED'')"

text \<open>
  Each loop runs at most \<open>fuel\<close> times through its body and stops with \<open>StillPolling\<close>
  when it would start one more; \<open>k\<close> counts the status requests made so far.

  Lines 60 to 64: the status is tested first, on the answer to the import request.
\<close>

fun wait_for_import ::
  "'a world \<Rightarrow> string \<Rightarrow> nat \<Rightarrow> nat \<Rightarrow> geometry_import \<Rightarrow> ('a, geometry_import) prog" where
  "wait_for_import w pid 0 k gi =
     (if \<not> is_terminal (status gi) then halt StillPolling else ret gi)"
| "wait_for_import w pid (Suc fuel) k gi =
     (if \<not> is_terminal (status gi) then
        andthen (emit (Sleep 5)) (\<lambda>_.
        andthen (call (GetGeometryImport pid (geometry_import_id gi))
                   (on_get_geometry_import w k)) (\<lambda>gi'.
        wait_for_import w pid fuel (Suc k) gi'))
      else ret gi)"

text \<open>Lines 189 to 193: the status is requested first, then tested.\<close>

fun wait_for_mesh ::
  "'a world \<Rightarrow> string \<Rightarrow> nat \<Rightarrow> nat \<Rightarrow> mesh_operation \<Rightarrow> ('a, mesh_operation) prog" where
  "wait_for_mesh w pid 0 k mesh_op = halt StillPolling"
| "wait_for_mesh w pid (Suc fuel) k mesh_op =
     andthen (call (GetMeshOperation pid (mesh_operation_id mesh_op))
                (on_get_mesh_operation w k)) (\<lambda>mesh_op'.
     if is_terminal (status mesh_op') then ret mesh_op'
     else andthen (emit (Sleep 30)) (\<lambda>_. wait_for_mesh w pid fuel (Suc k) mesh_op'))"

definition status_line :: "simulation_run \<Rightarrow> string" where
  "status_line run =
     ''Status: '' @ status run @ '' - Progress: '' @ format_percent0 (progress run)"

text \<open>Lines 208 to 213: requested, printed, then tested.\<close>

fun wait_for_run ::
  "'a world \<Rightarrow> string \<Rightarrow> string \<Rightarrow> nat \<Rightarrow> nat \<Rightarrow> simulation_run \<Rightarrow> ('a, simulation_run) prog"
  where
  "wait_for_run w pid sid 0 k run = halt StillPolling"
| "wait_for_run w pid sid (Suc fuel) k run =
     andthen (call (GetSimulationRun pid sid (run_id run)) (on_get_simulation_run w k)) (\<lambda>run'.
     andthen (emit (Print (status_line run'))) (\<lambda>_.
     if is_terminal (status run') then ret run'
     else andthen (emit (Sleep 60)) (\<lambda>_. wait_for_run w pid sid fuel (Suc k) run')))"

subsection \<open>The script, step by step\<close>

text \<open>Lines 10 to 13. \<^verbatim>\<open>not api_key\<close> holds of \<^verbatim>\<open>None\<close> and of the empty string.\<close>

definition missing :: "string option \<Rightarrow> bool" where
  "missing api_key = (case api_key of None \<Rightarrow> True | Some k \<Rightarrow> k = [])"

definition authenticate :: "'a world \<Rightarrow> ('a, string) prog" where
  "authenticate w =
     andthen (emit (Getenv ''SIMSCALE_API_KEY'')) (\<lambda>_.
     if missing (env_SIMSCALE_API_KEY w) then
       andthen (emit (Print ''ERROR: Please set SIMSCALE_API_KEY environment variable'')) (\<lambda>_.
       halt (Exit 1))
     else ret (the (env_SIMSCALE_API_KEY w)))"

text \<open>Lines 16 to 26.\<close>

definition init_clients :: "string \<Rightarrow> ('a, unit) prog" where
  "init_clients api_key =
     (map Construct [''Configuration''] @ [SetApiKey ''X-API-KEY'' api_key] @
      map Construct
        [''ApiClient'', ''ProjectsApi'', ''StorageApi'', ''GeometryImportsApi'',
         ''SimulationsApi'', ''MeshOperationsApi'', ''SimulationRunsApi'', ''GeometriesApi''],
      Inr ())"

text \<open>Lines 28 to 34.\<close>

definition create_project :: "'a world \<Rightarrow> ('a, string) prog" where
  "create_project w =
     andthen (emit (Print ''Creating project...'')) (\<lambda>_.
     andthen (call (CreateProject project_payload) (on_create_project w)) (\<lambda>project.
     ret (project_id project)))"

text \<open>Lines 37 to 44.\<close>

definition upload_geometry :: "'a world \<Rightarrow> ('a, storage) prog" where
  "upload_geometry w =
     andthen (emit (Print ''Uploading geometry...'')) (\<lambda>_.
     andthen (call CreateStorage (on_create_storage w)) (\<lambda>storage.
     andthen (read_file ''./fixtures/bracket-1.step'' (fixture_file w)) (\<lambda>body.
     andthen (call (PUT (url storage) [(''Content-Type'', ''application/octet-stream'')] body)
                (on_put w)) (\<lambda>_.
     ret storage))))"

text \<open>Lines 47 to 66.\<close>

definition import_geometry ::
  "'a world \<Rightarrow> nat \<Rightarrow> string \<Rightarrow> storage \<Rightarrow> ('a, string option) prog" where
  "import_geometry w fuel pid storage =
     andthen (call (ImportGeometry pid (geometry_import_request (storage_id storage)))
                (on_import_geometry w)) (\<lambda>gi.
     andthen (emit (Print ''Importing geometry...'')) (\<lambda>_.
     andthen (wait_for_import w pid fuel 0 gi) (\<lambda>gi'.
     ret (geometry_id gi'))))"

text \<open>Lines 69 to 72.\<close>

definition body_name_of :: "geometry_mapping list \<Rightarrow> string" where
  "body_name_of bodies = (case bodies of [] \<Rightarrow> ''region1'' | b # _ \<Rightarrow> name b)"

definition get_body_name :: "'a world \<Rightarrow> string \<Rightarrow> string option \<Rightarrow> ('a, string) prog" where
  "get_body_name w pid gid =
     andthen (call (GetGeometryMappings pid gid ''region'' 1) (on_get_geometry_mappings w))
       (\<lambda>mappings.
     ret (body_name_of (embedded mappings)))"

text \<open>Lines 75 to 166.\<close>

definition define_simulation ::
  "'a world \<Rightarrow> string \<Rightarrow> string option \<Rightarrow> string \<Rightarrow> ('a, string) prog" where
  "define_simulation w pid gid body_name =
     andthen (emit (Print ''Setting up simulation...'')) (\<lambda>_.
     andthen (call (CreateSimulation pid (simulation_spec gid body_name))
                (on_create_simulation w)) (\<lambda>simulation.
     ret (simulation_id simulation)))"

text \<open>Lines 169 to 193.\<close>

definition create_mesh ::
  "'a world \<Rightarrow> nat \<Rightarrow> string \<Rightarrow> string option \<Rightarrow> string \<Rightarrow> ('a, mesh_operation) prog" where
  "create_mesh w fuel pid gid sid =
     andthen (emit (Print ''Creating mesh...'')) (\<lambda>_.
     andthen (call (CreateMeshOperation pid (mesh_operation_payload gid))
                (on_create_mesh_operation w)) (\<lambda>mesh_op.
     andthen (call (StartMeshOperation pid (mesh_operation_id mesh_op) sid)
                (on_start_mesh_operation w)) (\<lambda>_.
     andthen (emit (Print ''Meshing...'')) (\<lambda>_.
     wait_for_mesh w pid fuel 0 mesh_op))))"

text \<open>Lines 196 to 198.\<close>

definition attach_mesh ::
  "'a world \<Rightarrow> string \<Rightarrow> string \<Rightarrow> mesh_operation \<Rightarrow> ('a, unit) prog" where
  "attach_mesh w pid sid mesh_op =
     andthen (call (GetSimulation pid sid) (on_get_simulation w)) (\<lambda>sim.
     call (UpdateSimulation pid sid (sim\<lparr>sim_mesh_id := mesh_id mesh_op\<rparr>))
       (on_update_simulation w))"

text \<open>Lines 201 to 213.\<close>

definition run_simulation ::
  "'a world \<Rightarrow> nat \<Rightarrow> string \<Rightarrow> string \<Rightarrow> ('a, simulation_run) prog" where
  "run_simulation w fuel pid sid =
     andthen (emit (Print ''Running simulation...'')) (\<lambda>_.
     andthen (call (CreateSimulationRun pid sid simulation_run_payload)
                (on_create_simulation_run w)) (\<lambda>run.
     andthen (call (StartSimulationRun pid sid (run_id run)) (on_start_simulation_run w)) (\<lambda>_.
     wait_for_run w pid sid fuel 0 run)))"

text \<open>Lines 215 and 216. The check mark is U+2713.\<close>

definition complete_message :: string where
  "complete_message = [CHR 0x0A, CHR 0xE2, CHR 0x9C, CHR 0x93] @ '' Simulation complete!''"

definition results_url :: "string \<Rightarrow> string" where
  "results_url pid = ''View results at: https://www.simscale.com/workbench/project/'' @ pid"

definition report :: "string \<Rightarrow> ('a, unit) prog" where
  "report pid =
     andthen (emit (Print complete_message)) (\<lambda>_. emit (Print (results_url pid)))"

text \<open>The whole script.\<close>

definition main :: "'a world \<Rightarrow> nat \<Rightarrow> ('a, unit) prog" where
  "main w fuel =
     andthen (authenticate w) (\<lambda>api_key.
     andthen (init_clients api_key) (\<lambda>_.
     andthen (create_project w) (\<lambda>pid.
     andthen (upload_geometry w) (\<lambda>storage.
     andthen (import_geometry w fuel pid storage) (\<lambda>gid.
     andthen (get_body_name w pid gid) (\<lambda>body_name.
     andthen (define_simulation w pid gid body_name) (\<lambda>sid.
     andthen (create_mesh w fuel pid gid sid) (\<lambda>mesh_op.
     andthen (attach_mesh w pid sid mesh_op) (\<lambda>_.
     andthen (run_simulation w fuel pid sid) (\<lambda>run.
     report pid))))))))))"

subsection \<open>An environment to run the script in\<close>

text \<open>
  A service where the import is finished at the second status request, the mesh at the
  third and the run at the second, with half of the work done at the first.
\<close>

definition import_pending :: geometry_import where
  "import_pending = \<lparr>status = ''PENDING'', geometry_import_id = ''gi1'', geometry_id = None\<rparr>"

definition import_finished :: geometry_import where
  "import_finished =
     \<lparr>status = ''FINISHED'', geometry_import_id = ''gi1'', geometry_id = Some ''g1''\<rparr>"

definition mesh_running :: mesh_operation where
  "mesh_running = \<lparr>status = ''RUNNING'', mesh_operation_id = ''m1'', mesh_id = None\<rparr>"

definition mesh_finished :: mesh_operation where
  "mesh_finished =
     \<lparr>status = ''FINISHED'', mesh_operation_id = ''m1'', mesh_id = Some ''mesh1''\<rparr>"

definition run_half :: simulation_run where
  "run_half = \<lparr>status = ''RUNNING'', run_id = ''r1'', progress = Finite False 1 (- 1)\<rparr>"

definition run_finished :: simulation_run where
  "run_finished = \<lparr>status = ''FINISHED'', run_id = ''r1'', progress = Finite False 1 0\<rparr>"

definition example_simulation :: simulation where
  "example_simulation = \<lparr>simulation_id = ''sim1'', sim_mesh_id = None\<rparr>"

definition example_world :: "unit world" where
  "example_world =
     \<lparr>env_SIMSCALE_API_KEY = Some ''secret'',
      fixture_file = Inr ''ISO-10303-21;'',
      on_create_project = Inr \<lparr>project_id = ''p1''\<rparr>,
      on_create_storage = Inr \<lparr>url = ''https://storage/s1'', storage_id = ''s1''\<rparr>,
      on_put = Inr (),
      on_import_geometry = Inr import_pending,
      on_get_geometry_import = (\<lambda>k. if k < 1 then Inr import_pending else Inr import_finished),
      on_get_geometry_mappings = Inr \<lparr>embedded = [\<lparr>name = ''B1_TE1''\<rparr>]\<rparr>,
      on_create_simulation = Inr example_simulation,
      on_create_mesh_operation = Inr mesh_running,
      on_start_mesh_operation = Inr (),
      on_get_mesh_operation = (\<lambda>k. if k < 2 then Inr mesh_running else Inr mesh_finished),
      on_get_simulation = Inr example_simulation,
      on_update_simulation = Inr (),
      on_create_simulation_run = Inr run_half,
      on_start_simulation_run = Inr (),
      on_get_simulation_run = (\<lambda>k. if k < 1 then Inr run_half else Inr run_finished)\<rparr>"

subsection \<open>Reading a list of effects\<close>

definition requests :: "'a event list \<Rightarrow> 'a request list" where
  "requests es = [rq. Request rq \<leftarrow> es]"

definition sleeps :: "'a event list \<Rightarrow> nat list" where
  "sleeps es = [n. Sleep n \<leftarrow> es]"

definition printed :: "'a event list \<Rightarrow> string list" where
  "printed es = [s. Print s \<leftarrow> es]"

text \<open>
  The answers to the status requests number \<open>k\<close> to \<open>k + n - 1\<close> are all answers of
  the service (no exception) with a status that is not terminal.
\<close>

primrec pending_until :: "(nat \<Rightarrow> exn + 'j job_scheme) \<Rightarrow> nat \<Rightarrow> nat \<Rightarrow> bool" where
  "pending_until answer k 0 = True"
| "pending_until answer k (Suc n) =
     ((case answer k of Inl x \<Rightarrow> False | Inr j \<Rightarrow> \<not> is_terminal (status j)) \<and>
      pending_until answer (Suc k) n)"

text \<open>The objects answered to the status requests number \<open>k\<close> to \<open>k + n - 1\<close>.\<close>

primrec answered :: "(nat \<Rightarrow> exn + 'r) \<Rightarrow> nat \<Rightarrow> nat \<Rightarrow> 'r list" where
  "answered answer k 0 = []"
| "answered answer k (Suc n) =
     (case answer k of Inl x \<Rightarrow> [] | Inr j \<Rightarrow> [j]) @ answered answer (Suc k) n"

subsection \<open>The script in two parts\<close>

text \<open>Lines 10 to 193, and lines 196 to 216: \<open>main\<close> is the first followed by the second.\<close>

definition prepare :: "'a world \<Rightarrow> nat \<Rightarrow> ('a, string \<times> string \<times> mesh_operation) prog" where
  "prepare w fuel =
     andthen (authenticate w) (\<lambda>api_key.
     andthen (init_clients api_key) (\<lambda>_.
     andthen (create_project w) (\<lambda>pid.
     andthen (upload_geometry w) (\<lambda>storage.
     andthen (import_geometry w fuel pid storage) (\<lambda>gid.
     andthen (get_body_name w pid gid) (\<lambda>body_name.
     andthen (define_simulation w pid gid body_name) (\<lambda>sid.
     andthen (create_mesh w fuel pid gid sid) (\<lambda>mesh_op.
     ret (pid, sid, mesh_op)))))))))"

definition finish ::
  "'a world \<Rightarrow> nat \<Rightarrow> string \<Rightarrow> string \<Rightarrow> mesh_operation \<Rightarrow> ('a, unit) prog" where
  "finish w fuel pid sid mesh_op =
     andthen (attach_mesh w pid sid mesh_op) (\<lambda>_.
     andthen (run_simulation w fuel pid sid) (\<lambda>run.
     report pid))"

text \<open>The requests about a simulation run.\<close>

fun is_run_request :: "'a request \<Rightarrow> bool" where
  "is_run_request (CreateSimulationRun pid sid payload) = True"
| "is_run_request (StartSimulationRun pid sid rid) = True"
| "is_run_request (GetSimulationRun pid sid rid) = True"
| "is_run_request rq = False"

text \<open>The entities of the topological reference of each material of a simulation specification.\<close>

definition material_entities :: "pyval \<Rightarrow> pyval option list" where
  "material_entities spec =
     (case attr ''model'' spec of
        None \<Rightarrow> []
      | Some model \<Rightarrow>
          (case attr ''materials'' model of
             None \<Rightarrow> []
           | Some materials \<Rightarrow>
               map (\<lambda>material.
                     case attr ''topological_reference'' material of
                       None \<Rightarrow> None
                     | Some reference \<Rightarrow> attr ''entities'' reference)
                 (items materials)))"

text \<open>The example environment with a geometry that has no mapped region.\<close>

definition no_bodies_world :: "unit world" where
  "no_bodies_world = example_world\<lparr>on_get_geometry_mappings := Inr \<lparr>embedded = []\<rparr>\<rparr>"

section \<open>Facts about sequencing\<close>

lemma andthen_emit: "andthen (emit e) f = (e # fst (f ()), snd (f ()))"
  by (simp add: andthen_def emit_def split: prod.splits)

lemma andthen_ret: "andthen (ret v) f = f v"
  by (simp add: andthen_def ret_def split: prod.splits)

lemma andthen_halt: "andthen (halt s) f = ([], Inl s)"
  by (simp add: andthen_def halt_def)

lemma andthen_call_Inr: "andthen (call rq (Inr v)) f = (Request rq # fst (f v), snd (f v))"
  by (simp add: andthen_def call_def split: prod.splits)

lemma andthen_call_Inl: "andthen (call rq (Inl x)) f = ([Request rq], Inl (Uncaught x))"
  by (simp add: andthen_def call_def)

lemma andthen_stopped: "snd m = Inl s \<Longrightarrow> andthen m f = (fst m, Inl s)"
  by (cases m) (simp add: andthen_def)

lemma andthen_value: "snd m = Inr v \<Longrightarrow> andthen m f = (fst m @ fst (f v), snd (f v))"
  by (cases m) (simp add: andthen_def split: prod.splits)

subsection \<open>Only the first step calls \<^verbatim>\<open>sys.exit\<close>\<close>

lemma snd_andthen_not_exit:
  "snd m \<noteq> Inl (Exit c) \<Longrightarrow> (\<And>v. snd (f v) \<noteq> Inl (Exit c)) \<Longrightarrow>
   snd (andthen m f) \<noteq> Inl (Exit c)"
proof (cases m)
  case (Pair es r)
  assume a: "snd m \<noteq> Inl (Exit c)" and b: "\<And>v. snd (f v) \<noteq> Inl (Exit c)"
  show ?thesis
  proof (cases r)
    case (Inl s)
    with Pair a show ?thesis by (simp add: andthen_def)
  next
    case (Inr v)
    with Pair b [of v] show ?thesis by (cases "f v") (simp add: andthen_def)
  qed
qed

lemma snd_call_not_exit: "snd (call rq a) \<noteq> Inl (Exit c)"
  by (simp add: call_def split: sum.splits)

lemma snd_emit_not_exit: "snd (emit e) \<noteq> Inl (Exit c)"
  by (simp add: emit_def)

lemma snd_ret_not_exit: "snd (ret e) \<noteq> Inl (Exit c)"
  by (simp add: ret_def)

lemma snd_read_file_not_exit: "snd (read_file p a) \<noteq> Inl (Exit c)"
  by (simp add: read_file_def split: sum.splits)

lemmas no_exit = snd_andthen_not_exit snd_call_not_exit snd_emit_not_exit snd_ret_not_exit
  snd_read_file_not_exit

lemma wait_for_import_not_exit: "snd (wait_for_import w pid fuel k gi) \<noteq> Inl (Exit c)"
proof (induction fuel arbitrary: k gi)
  case 0
  show ?case by (simp add: halt_def ret_def)
next
  case (Suc fuel)
  show ?case by (simp add: ret_def) (intro impI no_exit Suc)
qed

lemma wait_for_mesh_not_exit: "snd (wait_for_mesh w pid fuel k m) \<noteq> Inl (Exit c)"
proof (induction fuel arbitrary: k m)
  case 0
  show ?case by (simp add: halt_def)
next
  case (Suc fuel)
  show ?case unfolding wait_for_mesh.simps
    by (intro no_exit) (simp add: no_exit Suc)
qed

lemma wait_for_run_not_exit: "snd (wait_for_run w pid sid fuel k r) \<noteq> Inl (Exit c)"
proof (induction fuel arbitrary: k r)
  case 0
  show ?case by (simp add: halt_def)
next
  case (Suc fuel)
  show ?case unfolding wait_for_run.simps
    by (intro no_exit) (simp add: no_exit Suc)
qed

lemma rest_not_exit:
  "snd (andthen (init_clients api_key) (\<lambda>_.
     andthen (create_project w) (\<lambda>pid.
     andthen (upload_geometry w) (\<lambda>storage.
     andthen (import_geometry w fuel pid storage) (\<lambda>gid.
     andthen (get_body_name w pid gid) (\<lambda>body_name.
     andthen (define_simulation w pid gid body_name) (\<lambda>sid.
     andthen (create_mesh w fuel pid gid sid) (\<lambda>mesh_op.
     andthen (attach_mesh w pid sid mesh_op) (\<lambda>_.
     andthen (run_simulation w fuel pid sid) (\<lambda>run.
     report pid)))))))))) \<noteq> Inl (Exit c)"
  unfolding create_project_def upload_geometry_def import_geometry_def get_body_name_def
    define_simulation_def create_mesh_def attach_mesh_def run_simulation_def report_def
  by (intro no_exit wait_for_import_not_exit wait_for_mesh_not_exit wait_for_run_not_exit)
     (simp add: init_clients_def)

lemma authenticate_missing:
  "missing (env_SIMSCALE_API_KEY w) \<Longrightarrow>
   authenticate w =
     ([Getenv ''SIMSCALE_API_KEY'',
       Print ''ERROR: Please set SIMSCALE_API_KEY environment variable''],
      Inl (Exit 1))"
  by (simp add: authenticate_def andthen_emit andthen_halt halt_def)

lemma authenticate_present:
  "\<not> missing (env_SIMSCALE_API_KEY w) \<Longrightarrow>
   authenticate w = ([Getenv ''SIMSCALE_API_KEY''], Inr (the (env_SIMSCALE_API_KEY w)))"
  by (simp add: authenticate_def andthen_emit ret_def)

subsection \<open>Projections of a list of effects\<close>

lemma requests_simps [simp]:
  "requests [] = []"
  "requests (Request rq # es) = rq # requests es"
  "requests (Sleep n # es) = requests es"
  "requests (Print s # es) = requests es"
  "requests (xs @ ys) = requests xs @ requests ys"
  by (simp_all add: requests_def)

lemma sleeps_simps [simp]:
  "sleeps [] = []"
  "sleeps (Request rq # es) = sleeps es"
  "sleeps (Sleep n # es) = n # sleeps es"
  "sleeps (Print s # es) = sleeps es"
  "sleeps (xs @ ys) = sleeps xs @ sleeps ys"
  by (simp_all add: sleeps_def)

lemma printed_simps [simp]:
  "printed [] = []"
  "printed (Request rq # es) = printed es"
  "printed (Sleep n # es) = printed es"
  "printed (Print s # es) = s # printed es"
  "printed (xs @ ys) = printed xs @ printed ys"
  by (simp_all add: printed_def)

subsection \<open>The import loop\<close>

lemma wait_for_import_terminal:
  "is_terminal (status gi) \<Longrightarrow> wait_for_import w pid fuel k gi = ([], Inr gi)"
  by (cases fuel) (simp_all add: ret_def)

lemma wait_for_import_step:
  "\<not> is_terminal (status gi) \<Longrightarrow> on_get_geometry_import w k = Inr g \<Longrightarrow>
   wait_for_import w pid (Suc fuel) k gi =
     (Sleep 5 # Request (GetGeometryImport pid (geometry_import_id gi)) #
        fst (wait_for_import w pid fuel (Suc k) g),
      snd (wait_for_import w pid fuel (Suc k) g))"
  by (simp add: andthen_emit andthen_call_Inr)

lemma wait_for_import_raise:
  "\<not> is_terminal (status gi) \<Longrightarrow> on_get_geometry_import w k = Inl x \<Longrightarrow>
   wait_for_import w pid (Suc fuel) k gi =
     ([Sleep 5, Request (GetGeometryImport pid (geometry_import_id gi))], Inl (Uncaught x))"
  by (simp add: andthen_emit andthen_call_Inl)

lemma wait_for_import_out_of_fuel:
  "\<not> is_terminal (status gi) \<Longrightarrow> wait_for_import w pid 0 k gi = ([], Inl StillPolling)"
  by (simp add: halt_def)

declare wait_for_import.simps [simp del]

lemma wait_for_import_finishes:
  "\<not> is_terminal (status gi) \<Longrightarrow> pending_until (on_get_geometry_import w) k n \<Longrightarrow>
   on_get_geometry_import w (k + n) = Inr r \<Longrightarrow> is_terminal (status r) \<Longrightarrow> n < fuel \<Longrightarrow>
   snd (wait_for_import w pid fuel k gi) = Inr r \<and>
   length (requests (fst (wait_for_import w pid fuel k gi))) = Suc n \<and>
   sleeps (fst (wait_for_import w pid fuel k gi)) = replicate (Suc n) 5"
proof (induction n arbitrary: fuel k gi)
  case 0
  then obtain f where f: "fuel = Suc f" by (cases fuel) auto
  from 0 show ?case
    by (simp add: f wait_for_import_step wait_for_import_terminal)
next
  case (Suc n)
  then obtain f where f: "fuel = Suc f" by (cases fuel) auto
  from Suc.prems obtain g where g: "on_get_geometry_import w k = Inr g"
    "\<not> is_terminal (status g)" "pending_until (on_get_geometry_import w) (Suc k) n"
    by (auto split: sum.splits)
  have "n < f" using Suc.prems f by simp
  from Suc.IH [OF g(2) g(3) _ Suc.prems(4) this] Suc.prems(3)
  show ?case
    by (simp add: f wait_for_import_step [OF Suc.prems(1) g(1)])
qed

lemma wait_for_import_pending:
  "\<not> is_terminal (status gi) \<Longrightarrow> pending_until (on_get_geometry_import w) k fuel \<Longrightarrow>
   snd (wait_for_import w pid fuel k gi) = Inl StillPolling \<and>
   length (requests (fst (wait_for_import w pid fuel k gi))) = fuel \<and>
   sleeps (fst (wait_for_import w pid fuel k gi)) = replicate fuel 5"
proof (induction fuel arbitrary: k gi)
  case 0
  then show ?case by (simp add: wait_for_import_out_of_fuel)
next
  case (Suc fuel)
  from Suc.prems obtain g where g: "on_get_geometry_import w k = Inr g"
    "\<not> is_terminal (status g)" "pending_until (on_get_geometry_import w) (Suc k) fuel"
    by (auto split: sum.splits)
  from Suc.IH [OF g(2) g(3)]
  show ?case
    by (simp add: wait_for_import_step [OF Suc.prems(1) g(1)])
qed



subsection \<open>The mesh loop\<close>

lemma wait_for_mesh_out_of_fuel: "wait_for_mesh w pid 0 k m = ([], Inl StillPolling)"
  by (simp add: halt_def)

lemma wait_for_mesh_terminal:
  "on_get_mesh_operation w k = Inr r \<Longrightarrow> is_terminal (status r) \<Longrightarrow>
   wait_for_mesh w pid (Suc fuel) k m =
     ([Request (GetMeshOperation pid (mesh_operation_id m))], Inr r)"
  by (simp add: andthen_call_Inr ret_def)

lemma wait_for_mesh_step:
  "on_get_mesh_operation w k = Inr g \<Longrightarrow> \<not> is_terminal (status g) \<Longrightarrow>
   wait_for_mesh w pid (Suc fuel) k m =
     (Request (GetMeshOperation pid (mesh_operation_id m)) # Sleep 30 #
        fst (wait_for_mesh w pid fuel (Suc k) g),
      snd (wait_for_mesh w pid fuel (Suc k) g))"
  by (simp add: andthen_call_Inr andthen_emit)

lemma wait_for_mesh_raise:
  "on_get_mesh_operation w k = Inl x \<Longrightarrow>
   wait_for_mesh w pid (Suc fuel) k m =
     ([Request (GetMeshOperation pid (mesh_operation_id m))], Inl (Uncaught x))"
  by (simp add: andthen_call_Inl)

declare wait_for_mesh.simps [simp del]

lemma wait_for_mesh_finishes:
  "pending_until (on_get_mesh_operation w) k n \<Longrightarrow>
   on_get_mesh_operation w (k + n) = Inr r \<Longrightarrow> is_terminal (status r) \<Longrightarrow> n < fuel \<Longrightarrow>
   snd (wait_for_mesh w pid fuel k m) = Inr r \<and>
   length (requests (fst (wait_for_mesh w pid fuel k m))) = Suc n \<and>
   sleeps (fst (wait_for_mesh w pid fuel k m)) = replicate n 30"
proof (induction n arbitrary: fuel k m)
  case 0
  then obtain f where f: "fuel = Suc f" by (cases fuel) auto
  from 0 show ?case
    by (simp add: f wait_for_mesh_terminal)
next
  case (Suc n)
  then obtain f where f: "fuel = Suc f" by (cases fuel) auto
  from Suc.prems obtain g where g: "on_get_mesh_operation w k = Inr g"
    "\<not> is_terminal (status g)" "pending_until (on_get_mesh_operation w) (Suc k) n"
    by (auto split: sum.splits)
  have "n < f" using Suc.prems f by simp
  from Suc.IH [OF g(3) _ Suc.prems(3) this] Suc.prems(2)
  show ?case
    by (simp add: f wait_for_mesh_step [OF g(1) g(2)])
qed

lemma wait_for_mesh_pending:
  "pending_until (on_get_mesh_operation w) k fuel \<Longrightarrow>
   snd (wait_for_mesh w pid fuel k m) = Inl StillPolling \<and>
   length (requests (fst (wait_for_mesh w pid fuel k m))) = fuel \<and>
   sleeps (fst (wait_for_mesh w pid fuel k m)) = replicate fuel 30"
proof (induction fuel arbitrary: k m)
  case 0
  then show ?case by (simp add: wait_for_mesh_out_of_fuel)
next
  case (Suc fuel)
  from Suc.prems obtain g where g: "on_get_mesh_operation w k = Inr g"
    "\<not> is_terminal (status g)" "pending_until (on_get_mesh_operation w) (Suc k) fuel"
    by (auto split: sum.splits)
  from Suc.IH [OF g(3)]
  show ?case
    by (simp add: wait_for_mesh_step [OF g(1) g(2)])
qed

subsection \<open>The run loop\<close>

lemma wait_for_run_out_of_fuel: "wait_for_run w pid sid 0 k run = ([], Inl StillPolling)"
  by (simp add: halt_def)

lemma wait_for_run_terminal:
  "on_get_simulation_run w k = Inr r \<Longrightarrow> is_terminal (status r) \<Longrightarrow>
   wait_for_run w pid sid (Suc fuel) k run =
     ([Request (GetSimulationRun pid sid (run_id run)), Print (status_line r)], Inr r)"
  by (simp add: andthen_call_Inr andthen_emit ret_def)

lemma wait_for_run_step:
  "on_get_simulation_run w k = Inr g \<Longrightarrow> \<not> is_terminal (status g) \<Longrightarrow>
   wait_for_run w pid sid (Suc fuel) k run =
     (Request (GetSimulationRun pid sid (run_id run)) # Print (status_line g) # Sleep 60 #
        fst (wait_for_run w pid sid fuel (Suc k) g),
      snd (wait_for_run w pid sid fuel (Suc k) g))"
  by (simp add: andthen_call_Inr andthen_emit)

lemma wait_for_run_raise:
  "on_get_simulation_run w k = Inl x \<Longrightarrow>
   wait_for_run w pid sid (Suc fuel) k run =
     ([Request (GetSimulationRun pid sid (run_id run))], Inl (Uncaught x))"
  by (simp add: andthen_call_Inl)

declare wait_for_run.simps [simp del]

lemma wait_for_run_finishes:
  "pending_until (on_get_simulation_run w) k n \<Longrightarrow>
   on_get_simulation_run w (k + n) = Inr r \<Longrightarrow> is_terminal (status r) \<Longrightarrow> n < fuel \<Longrightarrow>
   snd (wait_for_run w pid sid fuel k run) = Inr r \<and>
   length (requests (fst (wait_for_run w pid sid fuel k run))) = Suc n \<and>
   sleeps (fst (wait_for_run w pid sid fuel k run)) = replicate n 60 \<and>
   printed (fst (wait_for_run w pid sid fuel k run)) =
     map status_line (answered (on_get_simulation_run w) k (Suc n)) \<and>
   last (fst (wait_for_run w pid sid fuel k run)) = Print (status_line r)"
proof (induction n arbitrary: fuel k run)
  case 0
  then obtain f where f: "fuel = Suc f" by (cases fuel) auto
  from 0 show ?case
    by (simp add: f wait_for_run_terminal)
next
  case (Suc n)
  then obtain f where f: "fuel = Suc f" by (cases fuel) auto
  from Suc.prems obtain g where g: "on_get_simulation_run w k = Inr g"
    "\<not> is_terminal (status g)" "pending_until (on_get_simulation_run w) (Suc k) n"
    by (auto split: sum.splits)
  have "n < f" using Suc.prems f by simp
  from Suc.IH [OF g(3) _ Suc.prems(3) this, of g] Suc.prems(2)
  have ih: "snd (wait_for_run w pid sid f (Suc k) g) = Inr r \<and>
   length (requests (fst (wait_for_run w pid sid f (Suc k) g))) = Suc n \<and>
   sleeps (fst (wait_for_run w pid sid f (Suc k) g)) = replicate n 60 \<and>
   printed (fst (wait_for_run w pid sid f (Suc k) g)) =
     map status_line (answered (on_get_simulation_run w) (Suc k) (Suc n)) \<and>
   last (fst (wait_for_run w pid sid f (Suc k) g)) = Print (status_line r)"
    by simp
  then have "fst (wait_for_run w pid sid f (Suc k) g) \<noteq> []"
    by (metis length_0_conv nat.distinct(1) requests_simps(1))
  with ih show ?case
    by (simp add: f wait_for_run_step [OF g(1) g(2)] g(1))
qed

lemma wait_for_run_pending:
  "pending_until (on_get_simulation_run w) k fuel \<Longrightarrow>
   snd (wait_for_run w pid sid fuel k run) = Inl StillPolling \<and>
   length (requests (fst (wait_for_run w pid sid fuel k run))) = fuel \<and>
   sleeps (fst (wait_for_run w pid sid fuel k run)) = replicate fuel 60 \<and>
   printed (fst (wait_for_run w pid sid fuel k run)) =
     map status_line (answered (on_get_simulation_run w) k fuel)"
proof (induction fuel arbitrary: k run)
  case 0
  then show ?case by (simp add: wait_for_run_out_of_fuel)
next
  case (Suc fuel)
  from Suc.prems obtain g where g: "on_get_simulation_run w k = Inr g"
    "\<not> is_terminal (status g)" "pending_until (on_get_simulation_run w) (Suc k) fuel"
    by (auto split: sum.splits)
  from Suc.IH [OF g(3), of g]
  show ?case
    by (simp add: wait_for_run_step [OF g(1) g(2)] g(1))
qed

subsection \<open>A loop is left only on a terminal status\<close>

lemma wait_for_import_left:
  "snd (wait_for_import w pid fuel k gi) = Inr r \<Longrightarrow> is_terminal (status r)"
proof (induction fuel arbitrary: k gi)
  case 0
  then show ?case
    by (cases "is_terminal (status gi)")
       (simp_all add: wait_for_import_terminal wait_for_import_out_of_fuel)
next
  case (Suc fuel)
  show ?case
  proof (cases "is_terminal (status gi)")
    case True
    with Suc.prems show ?thesis by (simp add: wait_for_import_terminal)
  next
    case False
    show ?thesis
    proof (cases "on_get_geometry_import w k")
      case (Inl x)
      with False Suc.prems show ?thesis by (simp add: wait_for_import_raise)
    next
      case (Inr g)
      with False Suc.prems Suc.IH [of "Suc k" g] show ?thesis
        by (simp add: wait_for_import_step)
    qed
  qed
qed

lemma wait_for_mesh_left:
  "snd (wait_for_mesh w pid fuel k m) = Inr r \<Longrightarrow> is_terminal (status r)"
proof (induction fuel arbitrary: k m)
  case 0
  then show ?case by (simp add: wait_for_mesh_out_of_fuel)
next
  case (Suc fuel)
  show ?case
  proof (cases "on_get_mesh_operation w k")
    case (Inl x)
    with Suc.prems show ?thesis by (simp add: wait_for_mesh_raise)
  next
    case (Inr g)
    with Suc.prems Suc.IH [of "Suc k" g] show ?thesis
      by (cases "is_terminal (status g)")
         (simp_all add: wait_for_mesh_step wait_for_mesh_terminal)
  qed
qed

lemma wait_for_run_left:
  "snd (wait_for_run w pid sid fuel k run) = Inr r \<Longrightarrow> is_terminal (status r)"
proof (induction fuel arbitrary: k run)
  case 0
  then show ?case by (simp add: wait_for_run_out_of_fuel)
next
  case (Suc fuel)
  show ?case
  proof (cases "on_get_simulation_run w k")
    case (Inl x)
    with Suc.prems show ?thesis by (simp add: wait_for_run_raise)
  next
    case (Inr g)
    with Suc.prems Suc.IH [of "Suc k" g] show ?thesis
      by (cases "is_terminal (status g)")
         (simp_all add: wait_for_run_step wait_for_run_terminal)
  qed
qed

subsection \<open>The example environment\<close>

lemma example_answers [simp]:
  "on_get_geometry_import example_world k = (if k < 1 then Inr import_pending else Inr import_finished)"
  "on_get_mesh_operation example_world k = (if k < 2 then Inr mesh_running else Inr mesh_finished)"
  "on_get_simulation_run example_world k = (if k < 1 then Inr run_half else Inr run_finished)"
  by (simp_all add: example_world_def)

lemma example_statuses [simp]:
  "\<not> is_terminal (status import_pending)" "is_terminal (status import_finished)"
  "\<not> is_terminal (status mesh_running)" "is_terminal (status mesh_finished)"
  "\<not> is_terminal (status run_half)" "is_terminal (status run_finished)"
  by (simp_all add: is_terminal_def import_pending_def import_finished_def mesh_running_def
      mesh_finished_def run_half_def run_finished_def)

subsection \<open>One iteration of each loop, whatever the answer\<close>

lemma wait_for_import_unfold:
  "wait_for_import w pid (Suc fuel) k gi =
     (if is_terminal (status gi) then ([], Inr gi)
      else case on_get_geometry_import w k of
        Inl x \<Rightarrow>
          ([Sleep 5, Request (GetGeometryImport pid (geometry_import_id gi))], Inl (Uncaught x))
      | Inr g \<Rightarrow>
          (Sleep 5 # Request (GetGeometryImport pid (geometry_import_id gi)) #
             fst (wait_for_import w pid fuel (Suc k) g),
           snd (wait_for_import w pid fuel (Suc k) g)))"
  by (simp add: wait_for_import_terminal wait_for_import_raise wait_for_import_step
      split: sum.splits)

lemma wait_for_mesh_unfold:
  "wait_for_mesh w pid (Suc fuel) k m =
     (case on_get_mesh_operation w k of
        Inl x \<Rightarrow> ([Request (GetMeshOperation pid (mesh_operation_id m))], Inl (Uncaught x))
      | Inr g \<Rightarrow>
          if is_terminal (status g)
          then ([Request (GetMeshOperation pid (mesh_operation_id m))], Inr g)
          else (Request (GetMeshOperation pid (mesh_operation_id m)) # Sleep 30 #
                  fst (wait_for_mesh w pid fuel (Suc k) g),
                snd (wait_for_mesh w pid fuel (Suc k) g)))"
  by (simp add: wait_for_mesh_terminal wait_for_mesh_raise wait_for_mesh_step
      split: sum.splits)

lemma wait_for_run_unfold:
  "wait_for_run w pid sid (Suc fuel) k run =
     (case on_get_simulation_run w k of
        Inl x \<Rightarrow> ([Request (GetSimulationRun pid sid (run_id run))], Inl (Uncaught x))
      | Inr g \<Rightarrow>
          if is_terminal (status g)
          then ([Request (GetSimulationRun pid sid (run_id run)), Print (status_line g)], Inr g)
          else (Request (GetSimulationRun pid sid (run_id run)) # Print (status_line g) #
                  Sleep 60 # fst (wait_for_run w pid sid fuel (Suc k) g),
                snd (wait_for_run w pid sid fuel (Suc k) g)))"
  by (simp add: wait_for_run_terminal wait_for_run_raise wait_for_run_step
      split: sum.splits)

lemma wait_for_import_0:
  "wait_for_import w pid 0 k gi =
     (if is_terminal (status gi) then ([], Inr gi) else ([], Inl StillPolling))"
  by (simp add: wait_for_import_terminal wait_for_import_out_of_fuel)

subsection \<open>The sleeps of a loop\<close>

lemma sleeps_wait_for_import:
  "sleeps (fst (wait_for_import w pid fuel k gi)) =
     replicate (length (sleeps (fst (wait_for_import w pid fuel k gi)))) 5"
proof (induction fuel arbitrary: k gi)
  case 0
  show ?case by (simp add: wait_for_import_0)
next
  case (Suc fuel)
  show ?case
  proof (cases "on_get_geometry_import w k")
    case (Inl x)
    then show ?thesis by (simp add: wait_for_import_unfold)
  next
    case (Inr g)
    with Suc [of "Suc k" g] show ?thesis by (simp add: wait_for_import_unfold)
  qed
qed

lemma sleeps_wait_for_mesh:
  "sleeps (fst (wait_for_mesh w pid fuel k m)) =
     replicate (length (sleeps (fst (wait_for_mesh w pid fuel k m)))) 30"
proof (induction fuel arbitrary: k m)
  case 0
  show ?case by (simp add: wait_for_mesh_out_of_fuel)
next
  case (Suc fuel)
  show ?case
  proof (cases "on_get_mesh_operation w k")
    case (Inl x)
    then show ?thesis by (simp add: wait_for_mesh_unfold)
  next
    case (Inr g)
    with Suc [of "Suc k" g] show ?thesis by (simp add: wait_for_mesh_unfold)
  qed
qed

lemma sleeps_wait_for_run:
  "sleeps (fst (wait_for_run w pid sid fuel k run)) =
     replicate (length (sleeps (fst (wait_for_run w pid sid fuel k run)))) 60"
proof (induction fuel arbitrary: k run)
  case 0
  show ?case by (simp add: wait_for_run_out_of_fuel)
next
  case (Suc fuel)
  show ?case
  proof (cases "on_get_simulation_run w k")
    case (Inl x)
    then show ?thesis by (simp add: wait_for_run_unfold)
  next
    case (Inr g)
    with Suc [of "Suc k" g] show ?thesis by (simp add: wait_for_run_unfold)
  qed
qed

subsection \<open>The script in two parts\<close>

lemma andthen_assoc: "andthen (andthen m f) g = andthen m (\<lambda>x. andthen (f x) g)"
proof (cases m)
  case (Pair es r)
  show ?thesis
  proof (cases r)
    case (Inl s)
    with Pair show ?thesis by (simp add: andthen_def)
  next
    case (Inr v)
    with Pair show ?thesis
      by (cases "f v"; cases "snd (f v)") (auto simp: andthen_def split: prod.splits)
  qed
qed

lemma main_staged:
  "main w fuel =
     andthen (prepare w fuel) (\<lambda>(pid, sid, mesh_op). finish w fuel pid sid mesh_op)"
  by (simp add: main_def prepare_def finish_def andthen_assoc andthen_ret)

lemma in_fst_andthen:
  "e \<in> set (fst (andthen m f)) \<longleftrightarrow>
     e \<in> set (fst m) \<or> (\<exists>v. snd m = Inr v \<and> e \<in> set (fst (f v)))"
  by (cases m; cases "snd m") (auto simp: andthen_def split: prod.splits)

lemma snd_andthen_Inr:
  "snd (andthen m f) = Inr v \<longleftrightarrow> (\<exists>u. snd m = Inr u \<and> snd (f u) = Inr v)"
  by (cases m; cases "snd m") (auto simp: andthen_def split: prod.splits)

lemma prog_simps [simp]:
  "fst (emit e) = [e]" "snd (emit e) = Inr ()"
  "fst (ret v) = []" "snd (ret v) = Inr v"
  "fst (halt s) = []" "snd (halt s) = Inl s"
  "fst (call rq a) = [Request rq]"
  "snd (call rq a) = Inr v \<longleftrightarrow> a = Inr v"
  "fst (read_file p c) = [OpenRead p]"
  "snd (read_file p c) = Inr b \<longleftrightarrow> c = Inr b"
  by (auto simp: emit_def ret_def halt_def call_def read_file_def split: sum.splits)

lemma request_in_wait_for_import:
  "Request rq \<in> set (fst (wait_for_import w pid fuel k gi)) \<Longrightarrow>
   \<exists>i. rq = GetGeometryImport pid i"
proof (induction fuel arbitrary: k gi)
  case 0
  then show ?case by (simp add: wait_for_import_0 split: if_splits)
next
  case (Suc fuel)
  then show ?case
    by (auto simp: wait_for_import_unfold split: if_splits sum.splits)
qed

lemma request_in_wait_for_mesh:
  "Request rq \<in> set (fst (wait_for_mesh w pid fuel k m)) \<Longrightarrow>
   \<exists>i. rq = GetMeshOperation pid i"
proof (induction fuel arbitrary: k m)
  case 0
  then show ?case by (simp add: wait_for_mesh_out_of_fuel)
next
  case (Suc fuel)
  then show ?case
    by (auto simp: wait_for_mesh_unfold split: if_splits sum.splits)
qed

lemma request_in_wait_for_run:
  "Request rq \<in> set (fst (wait_for_run w pid sid fuel k run)) \<Longrightarrow>
   \<exists>i. rq = GetSimulationRun pid sid i"
proof (induction fuel arbitrary: k run)
  case 0
  then show ?case by (simp add: wait_for_run_out_of_fuel)
next
  case (Suc fuel)
  then show ?case
    by (auto simp: wait_for_run_unfold split: if_splits sum.splits)
qed

lemma wait_for_mesh_result:
  "snd (wait_for_mesh w pid fuel k m0) = Inr m \<Longrightarrow>
   \<exists>n<fuel. pending_until (on_get_mesh_operation w) k n \<and>
     on_get_mesh_operation w (k + n) = Inr m \<and> is_terminal (status m)"
proof (induction fuel arbitrary: k m0)
  case 0
  then show ?case by (simp add: wait_for_mesh_out_of_fuel)
next
  case (Suc fuel)
  show ?case
  proof (cases "on_get_mesh_operation w k")
    case (Inl x)
    with Suc.prems show ?thesis by (simp add: wait_for_mesh_unfold)
  next
    case (Inr g)
    show ?thesis
    proof (cases "is_terminal (status g)")
      case True
      with Inr Suc.prems have "g = m" by (simp add: wait_for_mesh_unfold)
      with True Inr have "pending_until (on_get_mesh_operation w) k 0 \<and>
        on_get_mesh_operation w (k + 0) = Inr m \<and> is_terminal (status m)" by simp
      then show ?thesis by blast
    next
      case False
      with Inr Suc.prems have "snd (wait_for_mesh w pid fuel (Suc k) g) = Inr m"
        by (simp add: wait_for_mesh_unfold)
      from Suc.IH [OF this] obtain n where n: "n < fuel"
        "pending_until (on_get_mesh_operation w) (Suc k) n"
        "on_get_mesh_operation w (Suc k + n) = Inr m" "is_terminal (status m)" by blast
      with Inr False have "Suc n < Suc fuel \<and>
        pending_until (on_get_mesh_operation w) k (Suc n) \<and>
        on_get_mesh_operation w (k + Suc n) = Inr m \<and> is_terminal (status m)" by simp
      then show ?thesis by blast
    qed
  qed
qed

text \<open>What the first part of the script has done when it hands over.\<close>

lemma prepare_result:
  assumes "snd (prepare w fuel) = Inr (pid, sid, m)"
  shows "\<exists>n<fuel. pending_until (on_get_mesh_operation w) 0 n \<and>
     on_get_mesh_operation w n = Inr m \<and> is_terminal (status m)"
proof -
  from assms obtain gid m0 where "snd (create_mesh w fuel pid gid sid) = Inr m"
    by (auto simp: prepare_def snd_andthen_Inr)
  then obtain m0 where "snd (wait_for_mesh w pid fuel 0 m0) = Inr m"
    by (auto simp: create_mesh_def snd_andthen_Inr)
  from wait_for_mesh_result [OF this] show ?thesis by simp
qed

lemmas step_defs = create_project_def upload_geometry_def import_geometry_def
  get_body_name_def define_simulation_def create_mesh_def

lemma request_in_authenticate: "Request rq \<notin> set (fst (authenticate w))"
  by (simp add: authenticate_def in_fst_andthen)

lemma request_in_init_clients: "Request rq \<notin> set (fst (init_clients k))"
  by (simp add: init_clients_def)

lemma prepare_no_run_request:
  "Request rq \<in> set (fst (prepare w fuel)) \<Longrightarrow> \<not> is_run_request rq"
  by (auto simp: prepare_def step_defs in_fst_andthen request_in_authenticate
      request_in_init_clients
      dest!: request_in_wait_for_import request_in_wait_for_mesh)

lemma finish_get_raises:
  "on_get_simulation w = Inl x \<Longrightarrow>
   finish w fuel pid sid m = ([Request (GetSimulation pid sid)], Inl (Uncaught x))"
  by (simp add: finish_def attach_mesh_def andthen_call_Inl andthen_stopped)

lemma finish_update_raises:
  "on_get_simulation w = Inr sim \<Longrightarrow> on_update_simulation w = Inl x \<Longrightarrow>
   finish w fuel pid sid m =
     ([Request (GetSimulation pid sid),
       Request (UpdateSimulation pid sid (sim\<lparr>sim_mesh_id := mesh_id m\<rparr>))],
      Inl (Uncaught x))"
  by (simp add: finish_def attach_mesh_def call_def andthen_def)

lemma finish_attached:
  "on_get_simulation w = Inr sim \<Longrightarrow> on_update_simulation w = Inr u \<Longrightarrow>
   finish w fuel pid sid m =
     (Request (GetSimulation pid sid) #
      Request (UpdateSimulation pid sid (sim\<lparr>sim_mesh_id := mesh_id m\<rparr>)) #
      fst (andthen (run_simulation w fuel pid sid) (\<lambda>run. report pid)),
      snd (andthen (run_simulation w fuel pid sid) (\<lambda>run. report pid)))"
  by (simp add: finish_def attach_mesh_def andthen_call_Inr call_def andthen_value)

lemma request_in_finish:
  assumes "Request rq \<in> set (fst (finish w fuel pid sid m))" "is_run_request rq"
  shows "\<exists>sim post. on_get_simulation w = Inr sim \<and> on_update_simulation w = Inr () \<and>
     fst (finish w fuel pid sid m) =
       Request (GetSimulation pid sid) #
       Request (UpdateSimulation pid sid (sim\<lparr>sim_mesh_id := mesh_id m\<rparr>)) # post \<and>
     (rq = CreateSimulationRun pid sid simulation_run_payload \<or>
      (\<exists>rid. rq = StartSimulationRun pid sid rid) \<or>
      (\<exists>rid. rq = GetSimulationRun pid sid rid))"
proof (cases "on_get_simulation w")
  case (Inl x)
  with assms show ?thesis by (auto simp: finish_get_raises)
next
  case get: (Inr sim)
  show ?thesis
  proof (cases "on_update_simulation w")
    case (Inl x)
    with get assms show ?thesis by (auto simp: finish_update_raises)
  next
    case (Inr u)
    from assms(1) have "Request rq \<in> set (fst (andthen (run_simulation w fuel pid sid)
        (\<lambda>run. report pid))) \<or> \<not> is_run_request rq"
      by (auto simp: finish_attached [OF get Inr])
    with assms(2) have "rq = CreateSimulationRun pid sid simulation_run_payload \<or>
      (\<exists>rid. rq = StartSimulationRun pid sid rid) \<or>
      (\<exists>rid. rq = GetSimulationRun pid sid rid)"
      by (auto simp: run_simulation_def report_def in_fst_andthen
          dest!: request_in_wait_for_run)
    with get Inr show ?thesis by (simp add: finish_attached [OF get Inr])
  qed
qed

subsection \<open>The run in the example environment\<close>

lemma example_fields [simp]:
  "env_SIMSCALE_API_KEY example_world = Some ''secret''"
  "fixture_file example_world = Inr ''ISO-10303-21;''"
  "on_create_project example_world = Inr \<lparr>project_id = ''p1''\<rparr>"
  "on_create_storage example_world = Inr \<lparr>url = ''https://storage/s1'', storage_id = ''s1''\<rparr>"
  "on_put example_world = Inr ()"
  "on_import_geometry example_world = Inr import_pending"
  "on_get_geometry_mappings example_world = Inr \<lparr>embedded = [\<lparr>name = ''B1_TE1''\<rparr>]\<rparr>"
  "on_create_simulation example_world = Inr example_simulation"
  "on_create_mesh_operation example_world = Inr mesh_running"
  "on_start_mesh_operation example_world = Inr ()"
  "on_get_simulation example_world = Inr example_simulation"
  "on_update_simulation example_world = Inr ()"
  "on_create_simulation_run example_world = Inr run_half"
  "on_start_simulation_run example_world = Inr ()"
  by (simp_all add: example_world_def)

lemma example_ids [simp]:
  "geometry_import_id import_pending = ''gi1''"
  "geometry_import_id import_finished = ''gi1''"
  "geometry_id import_finished = Some ''g1''"
  "mesh_operation_id mesh_running = ''m1''"
  "mesh_operation_id mesh_finished = ''m1''"
  "mesh_id mesh_finished = Some ''mesh1''"
  "run_id run_half = ''r1''"
  "run_id run_finished = ''r1''"
  "simulation_id example_simulation = ''sim1''"
  by (simp_all add: import_pending_def import_finished_def mesh_running_def mesh_finished_def
      run_half_def run_finished_def example_simulation_def)

lemma example_import_loop:
  "wait_for_import example_world ''p1'' 3 0 import_pending =
     ([Sleep 5, Request (GetGeometryImport ''p1'' ''gi1''),
       Sleep 5, Request (GetGeometryImport ''p1'' ''gi1'')], Inr import_finished)"
  by (simp add: numeral_3_eq_3 wait_for_import_unfold)

lemma example_mesh_loop:
  "wait_for_mesh example_world ''p1'' 3 0 mesh_running =
     ([Request (GetMeshOperation ''p1'' ''m1''), Sleep 30,
       Request (GetMeshOperation ''p1'' ''m1''), Sleep 30,
       Request (GetMeshOperation ''p1'' ''m1'')], Inr mesh_finished)"
  by (simp add: numeral_3_eq_3 wait_for_mesh_unfold)

lemma example_run_loop:
  "wait_for_run example_world ''p1'' ''sim1'' 3 0 run_half =
     ([Request (GetSimulationRun ''p1'' ''sim1'' ''r1''), Print (status_line run_half), Sleep 60,
       Request (GetSimulationRun ''p1'' ''sim1'' ''r1''), Print (status_line run_finished)],
      Inr run_finished)"
  by (simp add: numeral_3_eq_3 wait_for_run_unfold)

lemma example_prepare:
  "prepare example_world 3 =
     ([Getenv ''SIMSCALE_API_KEY'', Construct ''Configuration'',
       SetApiKey ''X-API-KEY'' ''secret'', Construct ''ApiClient'', Construct ''ProjectsApi'',
       Construct ''StorageApi'', Construct ''GeometryImportsApi'', Construct ''SimulationsApi'',
       Construct ''MeshOperationsApi'', Construct ''SimulationRunsApi'',
       Construct ''GeometriesApi'',
       Print ''Creating project...'', Request (CreateProject project_payload),
       Print ''Uploading geometry...'', Request CreateStorage,
       OpenRead ''./fixtures/bracket-1.step'',
       Request (PUT ''https://storage/s1'' [(''Content-Type'', ''application/octet-stream'')]
         ''ISO-10303-21;''),
       Request (ImportGeometry ''p1'' (geometry_import_request ''s1'')),
       Print ''Importing geometry...'',
       Sleep 5, Request (GetGeometryImport ''p1'' ''gi1''),
       Sleep 5, Request (GetGeometryImport ''p1'' ''gi1''),
       Request (GetGeometryMappings ''p1'' (Some ''g1'') ''region'' 1),
       Print ''Setting up simulation...'',
       Request (CreateSimulation ''p1'' (simulation_spec (Some ''g1'') ''B1_TE1'')),
       Print ''Creating mesh...'',
       Request (CreateMeshOperation ''p1'' (mesh_operation_payload (Some ''g1''))),
       Request (StartMeshOperation ''p1'' ''m1'' ''sim1''),
       Print ''Meshing...'',
       Request (GetMeshOperation ''p1'' ''m1''), Sleep 30,
       Request (GetMeshOperation ''p1'' ''m1''), Sleep 30,
       Request (GetMeshOperation ''p1'' ''m1'')],
      Inr (''p1'', ''sim1'', mesh_finished))"
  by (simp add: prepare_def authenticate_def missing_def init_clients_def step_defs
      andthen_emit andthen_ret andthen_call_Inr andthen_value read_file_def
      example_import_loop example_mesh_loop body_name_of_def)

lemma example_finish:
  "finish example_world 3 ''p1'' ''sim1'' mesh_finished =
     ([Request (GetSimulation ''p1'' ''sim1''),
       Request (UpdateSimulation ''p1'' ''sim1''
         (example_simulation\<lparr>sim_mesh_id := Some ''mesh1''\<rparr>)),
       Print ''Running simulation...'',
       Request (CreateSimulationRun ''p1'' ''sim1'' simulation_run_payload),
       Request (StartSimulationRun ''p1'' ''sim1'' ''r1''),
       Request (GetSimulationRun ''p1'' ''sim1'' ''r1''), Print (status_line run_half), Sleep 60,
       Request (GetSimulationRun ''p1'' ''sim1'' ''r1''), Print (status_line run_finished),
       Print complete_message, Print (results_url ''p1'')],
      Inr ())"
  by (simp add: finish_def attach_mesh_def run_simulation_def report_def
      andthen_emit andthen_ret andthen_call_Inr andthen_value example_run_loop emit_def)

lemma example_main:
  "main example_world 3 =
     (fst (prepare example_world 3) @ fst (finish example_world 3 ''p1'' ''sim1'' mesh_finished),
      Inr ())"
  by (simp add: main_staged andthen_value example_prepare example_finish)

subsection \<open>Where the simulation requests are made\<close>

lemma prepare_no_update:
  "Request (UpdateSimulation p s sim') \<notin> set (fst (prepare w fuel))"
  by (auto simp: prepare_def step_defs in_fst_andthen request_in_authenticate
      request_in_init_clients
      dest!: request_in_wait_for_import request_in_wait_for_mesh)

lemma update_in_finish:
  assumes "Request (UpdateSimulation p s sim') \<in> set (fst (finish w fuel pid sid m))"
  shows "\<exists>sim. on_get_simulation w = Inr sim \<and> sim' = sim\<lparr>sim_mesh_id := mesh_id m\<rparr> \<and>
    p = pid \<and> s = sid"
proof (cases "on_get_simulation w")
  case (Inl x)
  with assms show ?thesis by (auto simp: finish_get_raises)
next
  case get: (Inr sim)
  show ?thesis
  proof (cases "on_update_simulation w")
    case (Inl x)
    with get assms show ?thesis by (auto simp: finish_update_raises)
  next
    case (Inr u)
    have "Request (UpdateSimulation p s sim') \<notin>
      set (fst (andthen (run_simulation w fuel pid sid) (\<lambda>run. report pid)))"
      by (auto simp: run_simulation_def report_def in_fst_andthen
          dest!: request_in_wait_for_run)
    with assms get show ?thesis
      by (auto simp: finish_attached [OF get Inr])
  qed
qed

lemma material_entities_simulation_spec:
  "material_entities (simulation_spec gid b) = [Some (PyList [PyStr b])]"
  by (simp add: material_entities_def simulation_spec_def harmonic_analysis_def steel_def
      topological_reference_def)

lemma create_simulation_in_finish:
  "Request (CreateSimulation p spec) \<notin> set (fst (finish w fuel pid sid m))"
  by (auto simp: finish_def attach_mesh_def run_simulation_def report_def in_fst_andthen
      dest!: request_in_wait_for_run)

lemma create_simulation_in_prepare:
  "Request (CreateSimulation p spec) \<in> set (fst (prepare w fuel)) \<Longrightarrow>
   \<exists>ms gid. on_get_geometry_mappings w = Inr ms \<and>
     spec = simulation_spec gid (body_name_of (embedded ms))"
  by (auto simp: prepare_def step_defs in_fst_andthen request_in_authenticate
      request_in_init_clients snd_andthen_Inr
      dest!: request_in_wait_for_import request_in_wait_for_mesh)

lemma no_bodies_fields [simp]:
  "env_SIMSCALE_API_KEY no_bodies_world = Some ''secret''"
  "fixture_file no_bodies_world = Inr ''ISO-10303-21;''"
  "on_create_project no_bodies_world = Inr \<lparr>project_id = ''p1''\<rparr>"
  "on_create_storage no_bodies_world = Inr \<lparr>url = ''https://storage/s1'', storage_id = ''s1''\<rparr>"
  "on_put no_bodies_world = Inr ()"
  "on_import_geometry no_bodies_world = Inr import_pending"
  "on_get_geometry_import no_bodies_world = on_get_geometry_import example_world"
  "on_get_geometry_mappings no_bodies_world = Inr \<lparr>embedded = []\<rparr>"
  by (simp_all add: no_bodies_world_def)

lemma no_bodies_create_simulation:
  "Request (CreateSimulation ''p1'' (simulation_spec (Some ''g1'') ''region1''))
     \<in> set (fst (main no_bodies_world 3))"
proof -
  have i: "wait_for_import no_bodies_world ''p1'' 3 0 import_pending =
     ([Sleep 5, Request (GetGeometryImport ''p1'' ''gi1''),
       Sleep 5, Request (GetGeometryImport ''p1'' ''gi1'')], Inr import_finished)"
    by (simp add: numeral_3_eq_3 wait_for_import_unfold)
  show ?thesis
    by (simp add: main_staged in_fst_andthen prepare_def authenticate_def missing_def
        init_clients_def create_project_def upload_geometry_def import_geometry_def
        get_body_name_def define_simulation_def
        snd_andthen_Inr i body_name_of_def)
qed

section \<open>The claims\<close>

text \<open>
  C1. When the environment variable \<^verbatim>\<open>SIMSCALE_API_KEY\<close> is absent or empty, the whole run
  is: read the variable, print the error message, exit with status 1; no client object is
  built and no call is made. When it is present, the run never exits through
  \<^verbatim>\<open>sys.exit\<close> and goes on past the check: the next effects are the construction of the
  configuration, the storing of the key and the construction of the API client.
\<close>

theorem missing_api_key_exits:
  "(missing (env_SIMSCALE_API_KEY w) \<longrightarrow>
      main w fuel =
        ([Getenv ''SIMSCALE_API_KEY'',
          Print ''ERROR: Please set SIMSCALE_API_KEY environment variable''],
         Inl (Exit 1))) \<and>
   (\<not> missing (env_SIMSCALE_API_KEY w) \<longrightarrow>
      (\<forall>c. snd (main w fuel) \<noteq> Inl (Exit c)) \<and>
      take 4 (fst (main w fuel)) =
        [Getenv ''SIMSCALE_API_KEY'', Construct ''Configuration'',
         SetApiKey ''X-API-KEY'' (the (env_SIMSCALE_API_KEY w)), Construct ''ApiClient''])"
proof (intro conjI impI allI)
  assume "missing (env_SIMSCALE_API_KEY w)"
  then show "main w fuel =
        ([Getenv ''SIMSCALE_API_KEY'',
          Print ''ERROR: Please set SIMSCALE_API_KEY environment variable''],
         Inl (Exit 1))"
    by (simp add: main_def authenticate_missing andthen_stopped)
next
  fix c
  assume k: "\<not> missing (env_SIMSCALE_API_KEY w)"
  show "snd (main w fuel) \<noteq> Inl (Exit c)"
    using k rest_not_exit [of "the (env_SIMSCALE_API_KEY w)" w fuel c]
    by (simp add: main_def authenticate_present andthen_value)
next
  assume k: "\<not> missing (env_SIMSCALE_API_KEY w)"
  show "take 4 (fst (main w fuel)) =
        [Getenv ''SIMSCALE_API_KEY'', Construct ''Configuration'',
         SetApiKey ''X-API-KEY'' (the (env_SIMSCALE_API_KEY w)), Construct ''ApiClient'']"
    using k
    by (simp add: main_def authenticate_present andthen_value init_clients_def)
qed

theorem missing_api_key_exits_witness:
  "missing (env_SIMSCALE_API_KEY (example_world\<lparr>env_SIMSCALE_API_KEY := None\<rparr>)) \<and>
   main (example_world\<lparr>env_SIMSCALE_API_KEY := None\<rparr>) 3 =
     ([Getenv ''SIMSCALE_API_KEY'',
       Print ''ERROR: Please set SIMSCALE_API_KEY environment variable''],
      Inl (Exit 1)) \<and>
   missing (env_SIMSCALE_API_KEY (example_world\<lparr>env_SIMSCALE_API_KEY := Some ''''\<rparr>)) \<and>
   main (example_world\<lparr>env_SIMSCALE_API_KEY := Some ''''\<rparr>) 3 =
     ([Getenv ''SIMSCALE_API_KEY'',
       Print ''ERROR: Please set SIMSCALE_API_KEY environment variable''],
      Inl (Exit 1)) \<and>
   \<not> missing (env_SIMSCALE_API_KEY example_world) \<and>
   (\<forall>c. snd (main example_world 3) \<noteq> Inl (Exit c)) \<and>
   take 4 (fst (main example_world 3)) =
     [Getenv ''SIMSCALE_API_KEY'', Construct ''Configuration'',
      SetApiKey ''X-API-KEY'' ''secret'', Construct ''ApiClient'']"
proof -
  have a: "missing (env_SIMSCALE_API_KEY (example_world\<lparr>env_SIMSCALE_API_KEY := None\<rparr>))"
    by (simp add: missing_def)
  have b: "missing (env_SIMSCALE_API_KEY (example_world\<lparr>env_SIMSCALE_API_KEY := Some ''''\<rparr>))"
    by (simp add: missing_def)
  have c: "\<not> missing (env_SIMSCALE_API_KEY example_world)"
    by (simp add: missing_def example_world_def)
  have d: "the (env_SIMSCALE_API_KEY example_world) = ''secret''"
    by (simp add: example_world_def)
  show ?thesis
    using a b c d
      missing_api_key_exits [of "example_world\<lparr>env_SIMSCALE_API_KEY := None\<rparr>" 3]
      missing_api_key_exits [of "example_world\<lparr>env_SIMSCALE_API_KEY := Some ''''\<rparr>" 3]
      missing_api_key_exits [of example_world 3]
    by simp
qed

text \<open>
  C2. Each poll loop is left exactly when the status it has observed is \<^verbatim>\<open>FINISHED\<close> or
  \<^verbatim>\<open>FAILED\<close>, and asks no more once it has seen one. In any run, a loop that is left
  returns an object with a terminal status. When the first terminal status is the answer
  to the status request number \<open>k + n\<close> (all answers before it being non-terminal), the loop
  is left with that answer after exactly \<open>n + 1\<close> status requests, whatever further
  iterations it is allowed. While the statuses stay non-terminal, the loop is not left: it
  is still polling after every number of iterations. The import loop tests the status of
  the submitted import first, and is left at once with no request when that is terminal.
\<close>

theorem poll_loops_left_exactly_on_terminal:
  "(snd (wait_for_import w pid fuel k gi) = Inr gi' \<longrightarrow> is_terminal (status gi')) \<and>
   (is_terminal (status gi) \<longrightarrow> wait_for_import w pid fuel k gi = ([], Inr gi)) \<and>
   (\<not> is_terminal (status gi) \<and> pending_until (on_get_geometry_import w) k n \<and>
    on_get_geometry_import w (k + n) = Inr gi'' \<and> is_terminal (status gi'') \<and> n < fuel \<longrightarrow>
      snd (wait_for_import w pid fuel k gi) = Inr gi'' \<and>
      length (requests (fst (wait_for_import w pid fuel k gi))) = Suc n) \<and>
   (\<not> is_terminal (status gi) \<and> pending_until (on_get_geometry_import w) k fuel \<longrightarrow>
      snd (wait_for_import w pid fuel k gi) = Inl StillPolling) \<and>
   (snd (wait_for_mesh w pid fuel k m) = Inr m' \<longrightarrow> is_terminal (status m')) \<and>
   (pending_until (on_get_mesh_operation w) k n \<and>
    on_get_mesh_operation w (k + n) = Inr m'' \<and> is_terminal (status m'') \<and> n < fuel \<longrightarrow>
      snd (wait_for_mesh w pid fuel k m) = Inr m'' \<and>
      length (requests (fst (wait_for_mesh w pid fuel k m))) = Suc n) \<and>
   (pending_until (on_get_mesh_operation w) k fuel \<longrightarrow>
      snd (wait_for_mesh w pid fuel k m) = Inl StillPolling) \<and>
   (snd (wait_for_run w pid sid fuel k run) = Inr run' \<longrightarrow> is_terminal (status run')) \<and>
   (pending_until (on_get_simulation_run w) k n \<and>
    on_get_simulation_run w (k + n) = Inr run'' \<and> is_terminal (status run'') \<and> n < fuel \<longrightarrow>
      snd (wait_for_run w pid sid fuel k run) = Inr run'' \<and>
      length (requests (fst (wait_for_run w pid sid fuel k run))) = Suc n) \<and>
   (pending_until (on_get_simulation_run w) k fuel \<longrightarrow>
      snd (wait_for_run w pid sid fuel k run) = Inl StillPolling)"
  using wait_for_import_left [of w pid fuel k gi gi']
    wait_for_import_terminal [of gi w pid fuel k]
    wait_for_import_finishes [of gi w k n gi'' fuel pid]
    wait_for_import_pending [of gi w k fuel pid]
    wait_for_mesh_left [of w pid fuel k m m']
    wait_for_mesh_finishes [of w k n m'' fuel pid m]
    wait_for_mesh_pending [of w k fuel pid m]
    wait_for_run_left [of w pid sid fuel k run run']
    wait_for_run_finishes [of w k n run'' fuel pid sid run]
    wait_for_run_pending [of w k fuel pid sid run]
  by blast

theorem poll_loops_left_exactly_on_terminal_witness:
  "snd (wait_for_import example_world ''p1'' 3 0 import_pending) = Inr import_finished \<and>
   is_terminal (status import_finished) \<and>
   wait_for_import example_world ''p1'' 3 1 import_finished = ([], Inr import_finished) \<and>
   \<not> is_terminal (status import_pending) \<and>
   pending_until (on_get_geometry_import example_world) 0 1 \<and>
   on_get_geometry_import example_world (0 + 1) = Inr import_finished \<and>
   length (requests (fst (wait_for_import example_world ''p1'' 3 0 import_pending))) = 2 \<and>
   snd (wait_for_import example_world ''p1'' 1 0 import_pending) = Inl StillPolling \<and>
   snd (wait_for_mesh example_world ''p1'' 3 0 mesh_running) = Inr mesh_finished \<and>
   is_terminal (status mesh_finished) \<and>
   pending_until (on_get_mesh_operation example_world) 0 2 \<and>
   on_get_mesh_operation example_world (0 + 2) = Inr mesh_finished \<and>
   length (requests (fst (wait_for_mesh example_world ''p1'' 3 0 mesh_running))) = 3 \<and>
   snd (wait_for_mesh example_world ''p1'' 2 0 mesh_running) = Inl StillPolling \<and>
   snd (wait_for_run example_world ''p1'' ''sim1'' 3 0 run_half) = Inr run_finished \<and>
   is_terminal (status run_finished) \<and>
   pending_until (on_get_simulation_run example_world) 0 1 \<and>
   on_get_simulation_run example_world (0 + 1) = Inr run_finished \<and>
   length (requests (fst (wait_for_run example_world ''p1'' ''sim1'' 3 0 run_half))) = 2 \<and>
   snd (wait_for_run example_world ''p1'' ''sim1'' 1 0 run_half) = Inl StillPolling"
proof -
  have p1: "pending_until (on_get_geometry_import example_world) 0 (Suc 0)"
    and p2: "pending_until (on_get_mesh_operation example_world) 0 (Suc (Suc 0))"
    and p3: "pending_until (on_get_simulation_run example_world) 0 (Suc 0)"
    by simp_all
  note a = poll_loops_left_exactly_on_terminal
    [of example_world "''p1''" 3 0 import_pending import_finished "Suc 0" import_finished
      mesh_running mesh_finished mesh_finished "''sim1''" run_half run_finished run_finished]
  note b = poll_loops_left_exactly_on_terminal
    [of example_world "''p1''" 3 0 import_pending import_finished "Suc (Suc 0)" import_finished
      mesh_running mesh_finished mesh_finished "''sim1''" run_half run_finished run_finished]
  note c = poll_loops_left_exactly_on_terminal
    [of example_world "''p1''" "Suc 0" 0 import_pending import_finished "Suc 0" import_finished
      mesh_running mesh_finished mesh_finished "''sim1''" run_half run_finished run_finished]
  note d = poll_loops_left_exactly_on_terminal
    [of example_world "''p1''" "Suc (Suc 0)" 0 import_pending import_finished "Suc 0"
      import_finished
      mesh_running mesh_finished mesh_finished "''sim1''" run_half run_finished run_finished]
  note e = poll_loops_left_exactly_on_terminal
    [of example_world "''p1''" 3 1 import_finished import_finished "Suc 0" import_finished
      mesh_running mesh_finished mesh_finished "''sim1''" run_half run_finished run_finished]
  from a b c d e p1 p2 p3 show ?thesis
    by (simp add: numeral_2_eq_2 numeral_3_eq_3)
qed

text \<open>
  C7. Every sleep of the import loop lasts 5 seconds, every sleep of the mesh loop 30 and
  every sleep of the run loop 60, in any run: the interval never grows. The import loop
  sleeps once before each status request; the mesh and the run loop sleep once between two
  status requests, so a loop left at the status request number \<open>n + 1\<close> has slept \<open>n + 1\<close>
  times (import) or \<open>n\<close> times (mesh, run). No loop gives up: while the statuses stay
  non-terminal a loop allowed \<open>fuel\<close> iterations has slept \<open>fuel\<close> times and is still
  polling.
\<close>

theorem poll_loops_sleep_fixed_intervals:
  "sleeps (fst (wait_for_import w pid fuel k gi)) =
     replicate (length (sleeps (fst (wait_for_import w pid fuel k gi)))) 5 \<and>
   sleeps (fst (wait_for_mesh w pid fuel k m)) =
     replicate (length (sleeps (fst (wait_for_mesh w pid fuel k m)))) 30 \<and>
   sleeps (fst (wait_for_run w pid sid fuel k run)) =
     replicate (length (sleeps (fst (wait_for_run w pid sid fuel k run)))) 60 \<and>
   (\<not> is_terminal (status gi) \<and> pending_until (on_get_geometry_import w) k n \<and>
    on_get_geometry_import w (k + n) = Inr gi' \<and> is_terminal (status gi') \<and> n < fuel \<longrightarrow>
      sleeps (fst (wait_for_import w pid fuel k gi)) = replicate (Suc n) 5) \<and>
   (pending_until (on_get_mesh_operation w) k n \<and>
    on_get_mesh_operation w (k + n) = Inr m' \<and> is_terminal (status m') \<and> n < fuel \<longrightarrow>
      sleeps (fst (wait_for_mesh w pid fuel k m)) = replicate n 30) \<and>
   (pending_until (on_get_simulation_run w) k n \<and>
    on_get_simulation_run w (k + n) = Inr run' \<and> is_terminal (status run') \<and> n < fuel \<longrightarrow>
      sleeps (fst (wait_for_run w pid sid fuel k run)) = replicate n 60) \<and>
   (\<not> is_terminal (status gi) \<and> pending_until (on_get_geometry_import w) k fuel \<longrightarrow>
      sleeps (fst (wait_for_import w pid fuel k gi)) = replicate fuel 5 \<and>
      snd (wait_for_import w pid fuel k gi) = Inl StillPolling) \<and>
   (pending_until (on_get_mesh_operation w) k fuel \<longrightarrow>
      sleeps (fst (wait_for_mesh w pid fuel k m)) = replicate fuel 30 \<and>
      snd (wait_for_mesh w pid fuel k m) = Inl StillPolling) \<and>
   (pending_until (on_get_simulation_run w) k fuel \<longrightarrow>
      sleeps (fst (wait_for_run w pid sid fuel k run)) = replicate fuel 60 \<and>
      snd (wait_for_run w pid sid fuel k run) = Inl StillPolling)"
  using sleeps_wait_for_import [of w pid fuel k gi]
    sleeps_wait_for_mesh [of w pid fuel k m]
    sleeps_wait_for_run [of w pid sid fuel k run]
    wait_for_import_finishes [of gi w k n gi' fuel pid]
    wait_for_import_pending [of gi w k fuel pid]
    wait_for_mesh_finishes [of w k n m' fuel pid m]
    wait_for_mesh_pending [of w k fuel pid m]
    wait_for_run_finishes [of w k n run' fuel pid sid run]
    wait_for_run_pending [of w k fuel pid sid run]
  by blast

theorem poll_loops_sleep_fixed_intervals_witness:
  "\<not> is_terminal (status import_pending) \<and>
   pending_until (on_get_geometry_import example_world) 0 1 \<and>
   on_get_geometry_import example_world (0 + 1) = Inr import_finished \<and>
   is_terminal (status import_finished) \<and>
   sleeps (fst (wait_for_import example_world ''p1'' 3 0 import_pending)) = [5, 5] \<and>
   pending_until (on_get_mesh_operation example_world) 0 2 \<and>
   on_get_mesh_operation example_world (0 + 2) = Inr mesh_finished \<and>
   is_terminal (status mesh_finished) \<and>
   sleeps (fst (wait_for_mesh example_world ''p1'' 3 0 mesh_running)) = [30, 30] \<and>
   pending_until (on_get_simulation_run example_world) 0 1 \<and>
   on_get_simulation_run example_world (0 + 1) = Inr run_finished \<and>
   is_terminal (status run_finished) \<and>
   sleeps (fst (wait_for_run example_world ''p1'' ''sim1'' 3 0 run_half)) = [60] \<and>
   sleeps (fst (wait_for_import example_world ''p1'' 1 0 import_pending)) = [5] \<and>
   snd (wait_for_import example_world ''p1'' 1 0 import_pending) = Inl StillPolling \<and>
   sleeps (fst (wait_for_mesh example_world ''p1'' 2 0 mesh_running)) = [30, 30] \<and>
   snd (wait_for_mesh example_world ''p1'' 2 0 mesh_running) = Inl StillPolling \<and>
   sleeps (fst (wait_for_run example_world ''p1'' ''sim1'' 1 0 run_half)) = [60] \<and>
   snd (wait_for_run example_world ''p1'' ''sim1'' 1 0 run_half) = Inl StillPolling"
proof -
  have p1: "pending_until (on_get_geometry_import example_world) 0 (Suc 0)"
    and p2: "pending_until (on_get_mesh_operation example_world) 0 (Suc (Suc 0))"
    and p3: "pending_until (on_get_simulation_run example_world) 0 (Suc 0)"
    by simp_all
  note a = poll_loops_sleep_fixed_intervals
    [of example_world "''p1''" 3 0 import_pending mesh_running "''sim1''" run_half "Suc 0"
      import_finished mesh_finished run_finished]
  note b = poll_loops_sleep_fixed_intervals
    [of example_world "''p1''" 3 0 import_pending mesh_running "''sim1''" run_half
      "Suc (Suc 0)" import_finished mesh_finished run_finished]
  note c = poll_loops_sleep_fixed_intervals
    [of example_world "''p1''" "Suc 0" 0 import_pending mesh_running "''sim1''" run_half
      "Suc 0" import_finished mesh_finished run_finished]
  note d = poll_loops_sleep_fixed_intervals
    [of example_world "''p1''" "Suc (Suc 0)" 0 import_pending mesh_running "''sim1''" run_half
      "Suc 0" import_finished mesh_finished run_finished]
  from a b c d p1 p2 p3 show ?thesis
    by (simp add: numeral_2_eq_2 numeral_3_eq_3)
qed

text \<open>
  C9. The mesh loop and the run loop request the status before they test it: as soon as
  they run through their body once, their first effect is a status request, whatever the
  status of the object they start from, terminal or not. The import loop tests the status
  of the answer to the import request first: when that is terminal it makes no request.
\<close>

theorem mesh_and_run_loops_request_first:
  "(is_terminal (status gi) \<longrightarrow> requests (fst (wait_for_import w pid fuel k gi)) = []) \<and>
   take 1 (fst (wait_for_mesh w pid (Suc fuel) k m)) =
     [Request (GetMeshOperation pid (mesh_operation_id m))] \<and>
   take 1 (fst (wait_for_run w pid sid (Suc fuel) k run)) =
     [Request (GetSimulationRun pid sid (run_id run))]"
  by (simp add: wait_for_import_terminal wait_for_mesh_unfold wait_for_run_unfold
      split: sum.splits)

theorem mesh_and_run_loops_request_first_witness:
  "is_terminal (status import_finished) \<and>
   requests (fst (wait_for_import example_world ''p1'' 2 0 import_finished)) = [] \<and>
   is_terminal (status mesh_finished) \<and>
   take 1 (fst (wait_for_mesh example_world ''p1'' (Suc 2) 0 mesh_finished)) =
     [Request (GetMeshOperation ''p1'' ''m1'')] \<and>
   is_terminal (status run_finished) \<and>
   take 1 (fst (wait_for_run example_world ''p1'' ''sim1'' (Suc 2) 0 run_finished)) =
     [Request (GetSimulationRun ''p1'' ''sim1'' ''r1'')]"
proof -
  have ids: "mesh_operation_id mesh_finished = ''m1''" "run_id run_finished = ''r1''"
    by (simp_all add: mesh_finished_def run_finished_def)
  from mesh_and_run_loops_request_first
    [of import_finished example_world "''p1''" 2 0 mesh_finished "''sim1''" run_finished]
  show ?thesis by (simp add: ids)
qed

text \<open>
  C4. In every run in which the simulation run is created or started, the list of effects
  has the update request of the simulation before it: the object sent is the fetched
  simulation with the mesh ID of the mesh operation the mesh loop ended on (the first
  answer with a terminal status), the update call has returned without an exception, and
  no request about a simulation run comes before the update request.
\<close>

theorem mesh_attached_before_run:
  "Request (CreateSimulationRun p s payload) \<in> set (fst (main w fuel)) \<or>
   Request (StartSimulationRun p s rid) \<in> set (fst (main w fuel)) \<longrightarrow>
   (\<exists>pre post sim m n.
      fst (main w fuel) =
        pre @ Request (UpdateSimulation p s (sim\<lparr>sim_mesh_id := mesh_id m\<rparr>)) # post \<and>
      (\<forall>rq \<in> set (requests pre). \<not> is_run_request rq) \<and>
      on_get_simulation w = Inr sim \<and> on_update_simulation w = Inr () \<and>
      pending_until (on_get_mesh_operation w) 0 n \<and>
      on_get_mesh_operation w n = Inr m \<and> is_terminal (status m))"
proof
  assume a: "Request (CreateSimulationRun p s payload) \<in> set (fst (main w fuel)) \<or>
   Request (StartSimulationRun p s rid) \<in> set (fst (main w fuel))"
  then obtain rq where rq: "Request rq \<in> set (fst (main w fuel))" "is_run_request rq"
    "rq = CreateSimulationRun p s payload \<or> rq = StartSimulationRun p s rid"
    by auto
  from rq(1,2) obtain pid sid m where
    prep: "snd (prepare w fuel) = Inr (pid, sid, m)" and
    fin: "Request rq \<in> set (fst (finish w fuel pid sid m))"
    using prepare_no_run_request [of rq w fuel]
    by (auto simp: main_staged in_fst_andthen)
  from request_in_finish [OF fin rq(2)] obtain sim post where
    sim: "on_get_simulation w = Inr sim" "on_update_simulation w = Inr ()"
    "fst (finish w fuel pid sid m) =
       Request (GetSimulation pid sid) #
       Request (UpdateSimulation pid sid (sim\<lparr>sim_mesh_id := mesh_id m\<rparr>)) # post" and
    ids: "rq = CreateSimulationRun pid sid simulation_run_payload \<or>
      (\<exists>rid. rq = StartSimulationRun pid sid rid) \<or>
      (\<exists>rid. rq = GetSimulationRun pid sid rid)"
    by blast
  from ids rq(3) have eq: "p = pid" "s = sid" by auto
  from prepare_result [OF prep] obtain n where
    n: "pending_until (on_get_mesh_operation w) 0 n" "on_get_mesh_operation w n = Inr m"
    "is_terminal (status m)" by blast
  have tr: "fst (main w fuel) =
    (fst (prepare w fuel) @ [Request (GetSimulation pid sid)]) @
    Request (UpdateSimulation p s (sim\<lparr>sim_mesh_id := mesh_id m\<rparr>)) # post"
    using prep sim(3) eq by (simp add: main_staged andthen_value)
  have pre: "\<forall>rq \<in> set (requests (fst (prepare w fuel) @ [Request (GetSimulation pid sid)])).
    \<not> is_run_request rq"
    using prepare_no_run_request [of _ w fuel] by (auto simp: requests_def)
  from tr pre sim(1,2) n show "\<exists>pre post sim m n.
      fst (main w fuel) =
        pre @ Request (UpdateSimulation p s (sim\<lparr>sim_mesh_id := mesh_id m\<rparr>)) # post \<and>
      (\<forall>rq \<in> set (requests pre). \<not> is_run_request rq) \<and>
      on_get_simulation w = Inr sim \<and> on_update_simulation w = Inr () \<and>
      pending_until (on_get_mesh_operation w) 0 n \<and>
      on_get_mesh_operation w n = Inr m \<and> is_terminal (status m)"
    by blast
qed

theorem mesh_attached_before_run_witness:
  "Request (CreateSimulationRun ''p1'' ''sim1'' simulation_run_payload)
     \<in> set (fst (main example_world 3)) \<and>
   (\<exists>pre post sim m n.
      fst (main example_world 3) =
        pre @ Request (UpdateSimulation ''p1'' ''sim1'' (sim\<lparr>sim_mesh_id := mesh_id m\<rparr>)) #
        post \<and>
      (\<forall>rq \<in> set (requests pre). \<not> is_run_request rq) \<and>
      on_get_simulation example_world = Inr sim \<and>
      on_update_simulation example_world = Inr () \<and>
      pending_until (on_get_mesh_operation example_world) 0 n \<and>
      on_get_mesh_operation example_world n = Inr m \<and> is_terminal (status m))"
proof -
  have h: "Request (CreateSimulationRun ''p1'' ''sim1'' simulation_run_payload)
     \<in> set (fst (main example_world 3))"
    by (simp add: example_main example_finish)
  from h mesh_attached_before_run
    [of "''p1''" "''sim1''" simulation_run_payload example_world 3 "''r1''"]
  show ?thesis by blast
qed

text \<open>
  C3. In any run, the specification sent to create the simulation has one material, and
  the entities of its topological reference are one name: \<^verbatim>\<open>region1\<close> when the list of
  bodies answered to the geometry mappings request is empty, the name of the first body
  of that list otherwise.
\<close>

theorem body_name_defaults_to_region1:
  "Request (CreateSimulation p spec) \<in> set (fst (main w fuel)) \<longrightarrow>
   (\<exists>ms. on_get_geometry_mappings w = Inr ms \<and>
      material_entities spec =
        [Some (PyList [PyStr (if embedded ms = [] then ''region1''
                              else name (hd (embedded ms)))])])"
proof
  assume "Request (CreateSimulation p spec) \<in> set (fst (main w fuel))"
  then have "Request (CreateSimulation p spec) \<in> set (fst (prepare w fuel))"
    by (auto simp: main_staged in_fst_andthen create_simulation_in_finish)
  from create_simulation_in_prepare [OF this] obtain ms gid where
    ms: "on_get_geometry_mappings w = Inr ms"
    "spec = simulation_spec gid (body_name_of (embedded ms))" by blast
  have "body_name_of (embedded ms) =
    (if embedded ms = [] then ''region1'' else name (hd (embedded ms)))"
    by (cases "embedded ms") (simp_all add: body_name_of_def)
  with ms show "\<exists>ms. on_get_geometry_mappings w = Inr ms \<and>
      material_entities spec =
        [Some (PyList [PyStr (if embedded ms = [] then ''region1''
                              else name (hd (embedded ms)))])]"
    by (simp add: material_entities_simulation_spec)
qed

theorem body_name_defaults_to_region1_witness:
  "Request (CreateSimulation ''p1'' (simulation_spec (Some ''g1'') ''region1''))
     \<in> set (fst (main no_bodies_world 3)) \<and>
   on_get_geometry_mappings no_bodies_world = Inr \<lparr>embedded = []\<rparr> \<and>
   material_entities (simulation_spec (Some ''g1'') ''region1'') =
     [Some (PyList [PyStr ''region1''])] \<and>
   Request (CreateSimulation ''p1'' (simulation_spec (Some ''g1'') ''B1_TE1''))
     \<in> set (fst (main example_world 3)) \<and>
   on_get_geometry_mappings example_world = Inr \<lparr>embedded = [\<lparr>name = ''B1_TE1''\<rparr>]\<rparr> \<and>
   material_entities (simulation_spec (Some ''g1'') ''B1_TE1'') =
     [Some (PyList [PyStr ''B1_TE1''])]"
proof -
  have h: "Request (CreateSimulation ''p1'' (simulation_spec (Some ''g1'') ''B1_TE1''))
     \<in> set (fst (main example_world 3))"
    by (simp add: example_main example_prepare)
  have e: "on_get_geometry_mappings no_bodies_world = Inr \<lparr>embedded = []\<rparr>"
    by simp
  from body_name_defaults_to_region1
      [of "''p1''" "simulation_spec (Some ''g1'') ''region1''" no_bodies_world 3]
    body_name_defaults_to_region1
      [of "''p1''" "simulation_spec (Some ''g1'') ''B1_TE1''" example_world 3]
    no_bodies_create_simulation h e
  show ?thesis by simp
qed

text \<open>
  C8. In any run, the simulation sent in an update request is the simulation the service
  answered to the request before it, with its mesh ID replaced by the mesh ID of the mesh
  operation the mesh loop ended on: the identifier and every other attribute of the fetched
  object are sent back as they came.
\<close>

theorem update_changes_mesh_id_only:
  "Request (UpdateSimulation p s sim') \<in> set (fst (main w fuel)) \<longrightarrow>
   (\<exists>sim m n.
      on_get_simulation w = Inr sim \<and>
      sim' = sim\<lparr>sim_mesh_id := mesh_id m\<rparr> \<and>
      simulation_id sim' = simulation_id sim \<and>
      simulation.more sim' = simulation.more sim \<and>
      sim_mesh_id sim' = mesh_id m \<and>
      pending_until (on_get_mesh_operation w) 0 n \<and>
      on_get_mesh_operation w n = Inr m \<and> is_terminal (status m))"
proof
  assume a: "Request (UpdateSimulation p s sim') \<in> set (fst (main w fuel))"
  then obtain pid sid m where
    prep: "snd (prepare w fuel) = Inr (pid, sid, m)" and
    fin: "Request (UpdateSimulation p s sim') \<in> set (fst (finish w fuel pid sid m))"
    using prepare_no_update [of p s sim' w fuel]
    by (auto simp: main_staged in_fst_andthen)
  from update_in_finish [OF fin] obtain sim where
    sim: "on_get_simulation w = Inr sim" "sim' = sim\<lparr>sim_mesh_id := mesh_id m\<rparr>"
    by blast
  from prepare_result [OF prep] obtain n where
    n: "pending_until (on_get_mesh_operation w) 0 n" "on_get_mesh_operation w n = Inr m"
    "is_terminal (status m)" by blast
  from sim have "simulation_id sim' = simulation_id sim"
    "simulation.more sim' = simulation.more sim" "sim_mesh_id sim' = mesh_id m"
    by simp_all
  with sim n show "\<exists>sim m n.
      on_get_simulation w = Inr sim \<and>
      sim' = sim\<lparr>sim_mesh_id := mesh_id m\<rparr> \<and>
      simulation_id sim' = simulation_id sim \<and>
      simulation.more sim' = simulation.more sim \<and>
      sim_mesh_id sim' = mesh_id m \<and>
      pending_until (on_get_mesh_operation w) 0 n \<and>
      on_get_mesh_operation w n = Inr m \<and> is_terminal (status m)"
    by blast
qed

theorem update_changes_mesh_id_only_witness:
  "Request (UpdateSimulation ''p1'' ''sim1'' (example_simulation\<lparr>sim_mesh_id := Some ''mesh1''\<rparr>))
     \<in> set (fst (main example_world 3)) \<and>
   (\<exists>sim m n.
      on_get_simulation example_world = Inr sim \<and>
      example_simulation\<lparr>sim_mesh_id := Some ''mesh1''\<rparr> = sim\<lparr>sim_mesh_id := mesh_id m\<rparr> \<and>
      simulation_id (example_simulation\<lparr>sim_mesh_id := Some ''mesh1''\<rparr>) = simulation_id sim \<and>
      simulation.more (example_simulation\<lparr>sim_mesh_id := Some ''mesh1''\<rparr>) =
        simulation.more sim \<and>
      sim_mesh_id (example_simulation\<lparr>sim_mesh_id := Some ''mesh1''\<rparr>) = mesh_id m \<and>
      pending_until (on_get_mesh_operation example_world) 0 n \<and>
      on_get_mesh_operation example_world n = Inr m \<and> is_terminal (status m))"
proof -
  have h: "Request (UpdateSimulation ''p1'' ''sim1''
      (example_simulation\<lparr>sim_mesh_id := Some ''mesh1''\<rparr>))
     \<in> set (fst (main example_world 3))"
    by (simp add: example_main example_finish)
  from h update_changes_mesh_id_only
    [of "''p1''" "''sim1''" "example_simulation\<lparr>sim_mesh_id := Some ''mesh1''\<rparr>"
      example_world 3]
  show ?thesis by blast
qed

end
